theory Spec2Isabelle
  imports Main "HOL-Library.AList" "HOL-Library.Word"
begin

unbundle bit_operations_syntax

text \<open>
  The booking flow endpoint: the availability engine and the booking state machine of
  the flow handlers, and the controller of \<^verbatim>\<open>route.ts\<close> with the encrypted envelope
  around them. The program is TypeScript; each function is a HOL function of the same
  name, and what it reads from outside (settings, clock, calendar provider, time-zone
  library, crypto module) is an argument.
\<close>

section \<open>JavaScript values and built-ins\<close>

text \<open>
  The handlers receive \<^verbatim>\<open>Record<string, unknown>\<close>: values parsed from JSON. An object is
  an association list in insertion order; a key that is absent reads as \<^verbatim>\<open>undefined\<close>,
  which is \<open>None\<close> of \<open>json option\<close>. Numbers are modelled as integers, and the range
  limit of \<^verbatim>\<open>Date\<close> (8.64e15 ms around the epoch) is not modelled. A string is its
  text in UTF-8, one \<open>char\<close> per byte, so a character outside ASCII is two or three
  bytes. A thrown \<^verbatim>\<open>Error\<close> is \<open>Inl message\<close> of a sum type; every thrown value is
  taken to be an \<^verbatim>\<open>Error\<close>.
\<close>

datatype json =
    JNull
  | JBool bool
  | JNum int
  | JStr string
  | JArr "json list"
  | JObj "(string \<times> json) list"

type_synonym jsobject = "(string \<times> json) list"

text \<open>\<^verbatim>\<open>!!v\<close>: the falsy values are undefined, null, false, 0 and the empty string.\<close>

fun truthy :: "json option \<Rightarrow> bool" where
  "truthy None = False"
| "truthy (Some JNull) = False"
| "truthy (Some (JBool b)) = b"
| "truthy (Some (JNum n)) = (n \<noteq> 0)"
| "truthy (Some (JStr s)) = (s \<noteq> [])"
| "truthy (Some (JArr xs)) = True"
| "truthy (Some (JObj kvs)) = True"

definition digit_char :: "int \<Rightarrow> char" where
  "digit_char d =
     (if d = 0 then CHR ''0'' else if d = 1 then CHR ''1'' else if d = 2 then CHR ''2''
      else if d = 3 then CHR ''3'' else if d = 4 then CHR ''4'' else if d = 5 then CHR ''5''
      else if d = 6 then CHR ''6'' else if d = 7 then CHR ''7'' else if d = 8 then CHR ''8''
      else CHR ''9'')"

text \<open>The decimal digits of an integer that is not negative.\<close>

function digits :: "int \<Rightarrow> string" where
  "digits n = (if n < 10 then [digit_char n] else digits (n div 10) @ [digit_char (n mod 10)])"
  by pat_completeness auto
termination
  by (relation "measure nat") auto

declare digits.simps [simp del]

text \<open>\<^verbatim>\<open>String(n)\<close> for an integer \<open>n\<close>.\<close>

definition js_String :: "int \<Rightarrow> string" where
  "js_String n = (if n < 0 then CHR ''-'' # digits (- n) else digits n)"

definition join_with :: "string \<Rightarrow> string list \<Rightarrow> string" where
  "join_with sep xs = (case xs of [] \<Rightarrow> [] | y # ys \<Rightarrow> y @ concat (map (\<lambda>z. sep @ z) ys))"

text \<open>What a template literal \<^verbatim>\<open>`${v}`\<close> writes for a value.\<close>

fun js_str :: "json \<Rightarrow> string" where
  "js_str JNull = ''null''"
| "js_str (JBool b) = (if b then ''true'' else ''false'')"
| "js_str (JNum n) = js_String n"
| "js_str (JStr s) = s"
| "js_str (JArr xs) = join_with '','' (map (\<lambda>x. if x = JNull then [] else js_str x) xs)"
| "js_str (JObj kvs) = ''[object Object]''"

definition template :: "json option \<Rightarrow> string" where
  "template v = (case v of None \<Rightarrow> ''undefined'' | Some x \<Rightarrow> js_str x)"

definition is_digit :: "char \<Rightarrow> bool" where
  "is_digit c = (48 \<le> (of_char c :: nat) \<and> (of_char c :: nat) \<le> 57)"

definition digit_val :: "char \<Rightarrow> int" where
  "digit_val c = int (of_char c) - 48"

text \<open>
  \<^verbatim>\<open>Number(s)\<close> on the strings this code gives it: the parts of an \<^verbatim>\<open>HH:mm\<close> time, of a
  \<^verbatim>\<open>yyyy-MM-dd\<close> date and the ISO weekday digit. The empty string is 0, a plain decimal
  numeral is its value, anything else is \<^verbatim>\<open>NaN\<close> (\<open>None\<close>). Signed, fractional,
  exponent, radix-prefixed and blank-padded numerals, which \<^verbatim>\<open>Number\<close> also reads,
  are outside the model.
\<close>

definition js_Number :: "string \<Rightarrow> int option" where
  "js_Number s =
     (if s = [] then Some 0
      else if list_all is_digit s then Some (foldl (\<lambda>a c. 10 * a + digit_val c) 0 s)
      else None)"

text \<open>\<^verbatim>\<open>s.split(c)\<close> for a separator of one character.\<close>

fun split_on :: "char \<Rightarrow> string \<Rightarrow> string list" where
  "split_on c [] = [[]]"
| "split_on c (x # xs) =
     (if x = c then [] # split_on c xs
      else (case split_on c xs of [] \<Rightarrow> [[x]] | p # ps \<Rightarrow> (x # p) # ps))"

text \<open>\<^verbatim>\<open>n || 0\<close> on a number: \<^verbatim>\<open>NaN\<close> and \<^verbatim>\<open>undefined\<close> give 0.\<close>

definition or0 :: "int option \<Rightarrow> int" where
  "or0 n = (case n of None \<Rightarrow> 0 | Some v \<Rightarrow> v)"

text \<open>\<^verbatim>\<open>a % b\<close> truncates towards zero.\<close>

definition js_rem :: "int \<Rightarrow> int \<Rightarrow> int" where
  "js_rem a b = (if a < 0 then - ((- a) mod \<bar>b\<bar>) else a mod \<bar>b\<bar>)"

definition padStart :: "nat \<Rightarrow> string \<Rightarrow> string" where
  "padStart n s = replicate (n - length s) CHR ''0'' @ s"

text \<open>
  The white space and line terminators of ECMAScript, as UTF-8: the ASCII characters
  U+0009 to U+000D and U+0020 in one byte; U+00A0 in two; U+1680, U+2000 to U+200A,
  U+2028, U+2029, U+202F, U+205F, U+3000 and U+FEFF in three.
\<close>

definition ws1 :: "char \<Rightarrow> bool" where
  "ws1 a = (a = CHR 0x09 \<or> a = CHR 0x0A \<or> a = CHR 0x0B \<or> a = CHR 0x0C \<or> a = CHR 0x0D \<or> a = CHR 0x20)"

definition ws2 :: "char \<Rightarrow> char \<Rightarrow> bool" where
  "ws2 a b = (a = CHR 0xC2 \<and> b = CHR 0xA0)"

definition ws3 :: "char \<Rightarrow> char \<Rightarrow> char \<Rightarrow> bool" where
  "ws3 a b c =
     ((a = CHR 0xE1 \<and> b = CHR 0x9A \<and> c = CHR 0x80)
      \<or> (a = CHR 0xE2 \<and> b = CHR 0x80 \<and>
          ((0x80 \<le> (of_char c :: nat) \<and> (of_char c :: nat) \<le> 0x8A)
           \<or> c = CHR 0xA8 \<or> c = CHR 0xA9 \<or> c = CHR 0xAF))
      \<or> (a = CHR 0xE2 \<and> b = CHR 0x81 \<and> c = CHR 0x9F)
      \<or> (a = CHR 0xE3 \<and> b = CHR 0x80 \<and> c = CHR 0x80)
      \<or> (a = CHR 0xEF \<and> b = CHR 0xBB \<and> c = CHR 0xBF))"

text \<open>\<^verbatim>\<open>s.trimStart()\<close>: white-space characters are removed from the front while there are any.\<close>

fun trimStart :: "string \<Rightarrow> string" where
  "trimStart (a # b # c # s) =
     (if ws1 a then trimStart (b # c # s)
      else if ws2 a b then trimStart (c # s)
      else if ws3 a b c then trimStart s
      else a # b # c # s)"
| "trimStart [a, b] = (if ws1 a then trimStart [b] else if ws2 a b then [] else [a, b])"
| "trimStart [a] = (if ws1 a then [] else [a])"
| "trimStart [] = []"

text \<open>
  The same from the back, on the reversed string: the bytes of a character come last
  byte first.
\<close>

fun trimEnd_rev :: "string \<Rightarrow> string" where
  "trimEnd_rev (a # b # c # s) =
     (if ws1 a then trimEnd_rev (b # c # s)
      else if ws2 b a then trimEnd_rev (c # s)
      else if ws3 c b a then trimEnd_rev s
      else a # b # c # s)"
| "trimEnd_rev [a, b] = (if ws1 a then trimEnd_rev [b] else if ws2 b a then [] else [a, b])"
| "trimEnd_rev [a] = (if ws1 a then [] else [a])"
| "trimEnd_rev [] = []"

text \<open>\<^verbatim>\<open>s.trim()\<close>.\<close>

definition trim :: "string \<Rightarrow> string" where
  "trim s = rev (trimEnd_rev (rev (trimStart s)))"

subsection \<open>The UTC calendar of \<^verbatim>\<open>Date\<close>\<close>

text \<open>
  \<^verbatim>\<open>Date.UTC\<close>, \<^verbatim>\<open>toISOString\<close> and \<^verbatim>\<open>getUTCDay\<close> are proleptic Gregorian arithmetic on
  the day number since 1970-01-01 (ECMAScript's MakeDay, YearFromTime, MonthFromTime,
  DateFromTime and WeekDay). Months are 1 to 12 here.
\<close>

definition days_from_civil :: "int \<Rightarrow> int \<Rightarrow> int \<Rightarrow> int" where
  "days_from_civil y m d =
     (let y' = (if m \<le> 2 then y - 1 else y);
          era = y' div 400;
          yoe = y' - era * 400;
          mp = (m + 9) mod 12;
          doy = (153 * mp + 2) div 5 + d - 1;
          doe = yoe * 365 + yoe div 4 - yoe div 100 + doy
      in era * 146097 + doe - 719468)"

definition civil_from_days :: "int \<Rightarrow> int \<times> int \<times> int" where
  "civil_from_days z0 =
     (let z = z0 + 719468;
          era = z div 146097;
          doe = z - era * 146097;
          yoe = (doe - doe div 1460 + doe div 36524 - doe div 146096) div 365;
          doy = doe - (365 * yoe + yoe div 4 - yoe div 100);
          mp = (5 * doy + 2) div 153;
          d = doy - (153 * mp + 2) div 5 + 1;
          m = (if mp < 10 then mp + 3 else mp - 9)
      in ((if m \<le> 2 then yoe + era * 400 + 1 else yoe + era * 400), m, d))"

definition msPerDay :: int where
  "msPerDay = 86400000"

text \<open>
  \<^verbatim>\<open>Date.UTC(year, monthIndex, date, 12, 0, 0)\<close>: a two-digit year counts from 1900, a
  month index outside 0 to 11 carries into the year, and \<open>date\<close> is added to the day
  number of the month's first day, so that it may run past the month's end.
\<close>

definition Date_UTC_noon :: "int \<Rightarrow> int \<Rightarrow> int \<Rightarrow> int" where
  "Date_UTC_noon year monthIndex date =
     (let yr = (if 0 \<le> year \<and> year \<le> 99 then 1900 + year else year);
          ym = yr + monthIndex div 12;
          mn = monthIndex mod 12
      in (days_from_civil ym (mn + 1) 1 + date - 1) * msPerDay + 12 * 3600000)"

definition iso_year :: "int \<Rightarrow> string" where
  "iso_year y =
     (if 0 \<le> y \<and> y \<le> 9999 then padStart 4 (digits y)
      else (if y < 0 then CHR ''-'' else CHR ''+'') # padStart 6 (digits \<bar>y\<bar>))"

definition pad2 :: "int \<Rightarrow> string" where
  "pad2 n = padStart 2 (digits n)"

definition toISOString :: "int \<Rightarrow> string" where
  "toISOString t =
     (let day = t div msPerDay;
          ms = t mod msPerDay
      in case civil_from_days day of (y, m, d) \<Rightarrow>
           iso_year y @ ''-'' @ pad2 m @ ''-'' @ pad2 d @ ''T'' @
           pad2 (ms div 3600000) @ '':'' @ pad2 (ms div 60000 mod 60) @ '':'' @
           pad2 (ms div 1000 mod 60) @ ''.'' @ padStart 3 (digits (ms mod 1000)) @ ''Z'')"

definition getUTCDay :: "int \<Rightarrow> int" where
  "getUTCDay t = (t div msPerDay + 4) mod 7"

text \<open>\<^verbatim>\<open>s.split(c)[0]\<close>.\<close>

definition first_part :: "char \<Rightarrow> string \<Rightarrow> string" where
  "first_part c s = (case split_on c s of [] \<Rightarrow> [] | p # ps \<Rightarrow> p)"

section \<open>Booking configuration\<close>

datatype Weekday = Mon | Tue | Wed | Thu | Fri | Sat | Sun

record Period =
  p_start :: string
  p_end :: string

record WorkingHoursDay =
  wh_day :: Weekday
  wh_enabled :: bool
  wh_start :: string
  wh_end :: string
  wh_slots :: "Period list option"

record CalendarBookingConfig =
  timezone :: string
  slotDurationMinutes :: int
  slotBufferMinutes :: int
  workingHours :: "WorkingHoursDay list"
  minAdvanceHours :: "int option"
  maxAdvanceDays :: "int option"
  allowSimultaneous :: "bool option"

definition WEEKDAY_KEYS :: "Weekday list" where
  "WEEKDAY_KEYS = [Mon, Tue, Wed, Thu, Fri, Sat, Sun]"

fun WEEKDAY_LABELS :: "Weekday \<Rightarrow> string" where
  "WEEKDAY_LABELS Mon = ''Mon''"
| "WEEKDAY_LABELS Tue = ''Tue''"
| "WEEKDAY_LABELS Wed = ''Wed''"
| "WEEKDAY_LABELS Thu = ''Thu''"
| "WEEKDAY_LABELS Fri = ''Fri''"
| "WEEKDAY_LABELS Sat = ''Sat''"
| "WEEKDAY_LABELS Sun = ''Sun''"

fun WEEKDAY_FULL_LABELS :: "Weekday \<Rightarrow> string" where
  "WEEKDAY_FULL_LABELS Mon = ''Segunda''"
| "WEEKDAY_FULL_LABELS Tue = ''Terca''"
| "WEEKDAY_FULL_LABELS Wed = ''Quarta''"
| "WEEKDAY_FULL_LABELS Thu = ''Quinta''"
| "WEEKDAY_FULL_LABELS Fri = ''Sexta''"
| "WEEKDAY_FULL_LABELS Sat = ''Sabado''"
| "WEEKDAY_FULL_LABELS Sun = ''Domingo''"

text \<open>\<^verbatim>\<open>WEEKDAY_KEYS[i]\<close>: \<^verbatim>\<open>undefined\<close> for an index that is \<^verbatim>\<open>NaN\<close> or out of range.\<close>

definition WEEKDAY_KEYS_at :: "int option \<Rightarrow> Weekday option" where
  "WEEKDAY_KEYS_at i =
     (case i of None \<Rightarrow> None
      | Some k \<Rightarrow> if 0 \<le> k \<and> k < 7 then Some (WEEKDAY_KEYS ! nat k) else None)"

record ServiceType =
  svc_id :: string
  svc_title :: string
  svc_durationMinutes :: "int option"

definition DEFAULT_SERVICES :: "ServiceType list" where
  "DEFAULT_SERVICES =
     [\<lparr>svc_id = ''consulta'', svc_title = ''Consulta'', svc_durationMinutes = Some 30\<rparr>,
      \<lparr>svc_id = ''visita'', svc_title = ''Visita'', svc_durationMinutes = Some 60\<rparr>,
      \<lparr>svc_id = ''suporte'', svc_title = ''Suporte'', svc_durationMinutes = Some 30\<rparr>]"

definition weekdays_9_to_18 :: "Weekday \<Rightarrow> WorkingHoursDay" where
  "weekdays_9_to_18 d =
     \<lparr>wh_day = d, wh_enabled = True, wh_start = ''09:00'', wh_end = ''18:00'', wh_slots = None\<rparr>"

definition weekend_off :: "Weekday \<Rightarrow> WorkingHoursDay" where
  "weekend_off d =
     \<lparr>wh_day = d, wh_enabled = False, wh_start = ''09:00'', wh_end = ''13:00'', wh_slots = None\<rparr>"

definition DEFAULT_CONFIG :: CalendarBookingConfig where
  "DEFAULT_CONFIG =
     \<lparr>timezone = ''America/Sao_Paulo'',
      slotDurationMinutes = 30,
      slotBufferMinutes = 10,
      workingHours = map weekdays_9_to_18 [Mon, Tue, Wed, Thu, Fri] @ map weekend_off [Sat, Sun],
      minAdvanceHours = Some 4,
      maxAdvanceDays = Some 14,
      allowSimultaneous = Some False\<rparr>"

section \<open>The collaborators of one request\<close>

record BusyItem =
  item_start :: int
  item_end :: int

record EventTime =
  dateTime :: string
  et_timeZone :: string

record CalendarEvent =
  summary :: string
  description :: string
  ev_start :: EventTime
  ev_end :: EventTime

record CreatedEvent =
  event_id :: "string option"
  htmlLink :: "string option"

text \<open>
  What one request reads from outside the handlers. \<open>envConfig\<close> is what
  \<^verbatim>\<open>getCalendarBookingConfig()\<close> resolves to, \<open>envCalendarId\<close> is
  \<^verbatim>\<open>(await getCalendarConfig())?.calendarId\<close>, \<open>envNow\<close> is \<^verbatim>\<open>new Date().getTime()\<close>.
  \<open>listBusyTimes\<close> and \<open>createEvent\<close> are the calendar provider (\<open>Inl\<close>: the call
  rejected); the instants of a busy item are \<^verbatim>\<open>new Date(item.start).getTime()\<close> and
  \<^verbatim>\<open>new Date(item.end).getTime()\<close>. \<open>fromZonedTime\<close> and \<open>formatInTimeZone\<close> are the
  functions of date-fns-tz (\<open>None\<close>: an invalid date; \<open>Inl\<close>: a thrown RangeError), and
  \<open>Date_parse\<close> is \<^verbatim>\<open>new Date(string).getTime()\<close>. Reading the settings and the
  calendar configuration is taken to succeed, and to give the same answer throughout
  one request.
\<close>

record env =
  envConfig :: CalendarBookingConfig
  envCalendarId :: "string option"
  envNow :: int
  listBusyTimes :: "string \<Rightarrow> string \<Rightarrow> string \<Rightarrow> string \<Rightarrow> string + BusyItem list"
  createEvent :: "string \<Rightarrow> CalendarEvent \<Rightarrow> string + CreatedEvent"
  fromZonedTime :: "string \<Rightarrow> string \<Rightarrow> int option"
  formatInTimeZone :: "int \<Rightarrow> string \<Rightarrow> string \<Rightarrow> string + string"
  Date_parse :: "string \<Rightarrow> int option"

definition RangeError_invalid_time :: string where
  "RangeError_invalid_time = ''Invalid time value''"

text \<open>\<^verbatim>\<open>date.toISOString()\<close> throws on an invalid date.\<close>

definition Date_toISOString :: "int option \<Rightarrow> string + string" where
  "Date_toISOString d = (case d of None \<Rightarrow> Inl RangeError_invalid_time | Some t \<Rightarrow> Inr (toISOString t))"

section \<open>Availability\<close>

definition getWeekdayKey :: "env \<Rightarrow> int \<Rightarrow> string \<Rightarrow> string + Weekday option" where
  "getWeekdayKey E date timeZone =
     (case formatInTimeZone E date timeZone ''i'' of
        Inl e \<Rightarrow> Inl e
      | Inr s \<Rightarrow> Inr (WEEKDAY_KEYS_at (map_option (\<lambda>isoDay. isoDay - 1) (js_Number s))))"

definition parseTimeToMinutes :: "string \<Rightarrow> int" where
  "parseTimeToMinutes v =
     (let parts = map js_Number (split_on CHR '':'' v);
          hh = (case parts of [] \<Rightarrow> None | h # rest \<Rightarrow> h);
          mm = (case parts of h # m # rest \<Rightarrow> m | _ \<Rightarrow> None)
      in or0 hh * 60 + or0 mm)"

record Slot =
  slot_id :: string
  slot_title :: string

record Busy =
  startMs :: int
  endMs :: int

definition timeStr_of :: "int \<Rightarrow> string" where
  "timeStr_of currentMinutes =
     padStart 2 (js_String (currentMinutes div 60)) @ '':'' @
     padStart 2 (js_String (js_rem currentMinutes 60))"

definition slotStart_of :: "env \<Rightarrow> string \<Rightarrow> string \<Rightarrow> int \<Rightarrow> int option" where
  "slotStart_of E dateStr timeZone currentMinutes =
     fromZonedTime E (dateStr @ ''T'' @ timeStr_of currentMinutes @ '':00'') timeZone"

definition hasConflict :: "Busy list \<Rightarrow> int \<Rightarrow> int \<Rightarrow> bool" where
  "hasConflict busy slotStartMs slotEndMs =
     list_ex (\<lambda>b. slotStartMs < endMs b \<and> slotEndMs > startMs b) busy"

text \<open>
  The \<^verbatim>\<open>while\<close> loop of one work period. With a slot duration of 0 or less the loop
  never leaves a period it has entered: the result is \<open>None\<close>. An invalid \<open>slotStart\<close>
  compares false with everything, so it is neither skipped nor in conflict, and
  \<^verbatim>\<open>slotStart.toISOString()\<close> throws.
\<close>

partial_function (option) slot_loop ::
  "env \<Rightarrow> string \<Rightarrow> string \<Rightarrow> int \<Rightarrow> int \<Rightarrow> Busy list \<Rightarrow> int \<Rightarrow> int \<Rightarrow> Slot list
     \<Rightarrow> (string + Slot list) option"
where
  "slot_loop E dateStr timeZone slotDuration minAllowedTime busy workEnd currentMinutes slots =
     (if currentMinutes + slotDuration \<le> workEnd then
        (case slotStart_of E dateStr timeZone currentMinutes of
           None \<Rightarrow> Some (Inl RangeError_invalid_time)
         | Some slotStartMs \<Rightarrow>
             if slotStartMs \<le> minAllowedTime then
               slot_loop E dateStr timeZone slotDuration minAllowedTime busy workEnd
                 (currentMinutes + slotDuration) slots
             else if \<not> hasConflict busy slotStartMs (slotStartMs + slotDuration * 60 * 1000) then
               slot_loop E dateStr timeZone slotDuration minAllowedTime busy workEnd
                 (currentMinutes + slotDuration)
                 (slots @ [\<lparr>slot_id = toISOString slotStartMs, slot_title = timeStr_of currentMinutes\<rparr>])
             else
               slot_loop E dateStr timeZone slotDuration minAllowedTime busy workEnd
                 (currentMinutes + slotDuration) slots)
      else Some (Inr slots))"

declare slot_loop.simps [code]

text \<open>The \<^verbatim>\<open>for\<close> loop over the work periods; \<open>slots\<close> is the array being filled.\<close>

fun period_loop ::
  "env \<Rightarrow> string \<Rightarrow> string \<Rightarrow> int \<Rightarrow> int \<Rightarrow> Busy list \<Rightarrow> Period list \<Rightarrow> Slot list
     \<Rightarrow> (string + Slot list) option"
where
  "period_loop E dateStr timeZone slotDuration minAllowedTime busy [] slots = Some (Inr slots)"
| "period_loop E dateStr timeZone slotDuration minAllowedTime busy (period # rest) slots =
     (case slot_loop E dateStr timeZone slotDuration minAllowedTime busy
             (parseTimeToMinutes (p_end period)) (parseTimeToMinutes (p_start period)) slots of
        None \<Rightarrow> None
      | Some (Inl e) \<Rightarrow> Some (Inl e)
      | Some (Inr slots') \<Rightarrow>
          period_loop E dateStr timeZone slotDuration minAllowedTime busy rest slots')"

definition calendar_not_connected :: string where
  "calendar_not_connected = ''Google Calendar nao conectado''"

text \<open>\<^verbatim>\<open>!calendarId\<close>: no calendar configuration, no id, or an empty id.\<close>

definition no_calendar :: "string option \<Rightarrow> bool" where
  "no_calendar calendarId = (case calendarId of None \<Rightarrow> True | Some c \<Rightarrow> c = [])"

definition expand_busy :: "int \<Rightarrow> BusyItem \<Rightarrow> Busy" where
  "expand_busy bufferMs item = \<lparr>startMs = item_start item - bufferMs, endMs = item_end item + bufferMs\<rparr>"

definition workPeriods_of :: "WorkingHoursDay \<Rightarrow> Period list" where
  "workPeriods_of workingDay =
     (case wh_slots workingDay of
        None \<Rightarrow> [\<lparr>p_start = wh_start workingDay, p_end = wh_end workingDay\<rparr>]
      | Some ps \<Rightarrow> if length ps > 0 then ps
                   else [\<lparr>p_start = wh_start workingDay, p_end = wh_end workingDay\<rparr>])"

text \<open>
  \<^verbatim>\<open>getAvailableSlots(dateStr)\<close>. \<open>None\<close>: the call does not return; \<open>Some (Inl m)\<close>:
  it throws an error with message \<open>m\<close>; \<open>Some (Inr slots)\<close>: it returns \<open>slots\<close>.
\<close>

definition getAvailableSlots :: "env \<Rightarrow> string \<Rightarrow> (string + Slot list) option" where
  "getAvailableSlots E dateStr =
     (let config = envConfig E;
          calendarId = envCalendarId E
      in if no_calendar calendarId then Some (Inl calendar_not_connected)
         else
           let timeZone = timezone config;
               slotDuration = slotDurationMinutes config;
               bufferMinutes = slotBufferMinutes config;
               minAdvance = (case minAdvanceHours config of None \<Rightarrow> 0 | Some h \<Rightarrow> h);
               dayStart = fromZonedTime E (dateStr @ ''T00:00:00'') timeZone;
               dayEnd = fromZonedTime E (dateStr @ ''T23:59:59'') timeZone;
               minAllowedTime = envNow E + minAdvance * 60 * 60 * 1000
           in case Date_toISOString dayStart of
                Inl e \<Rightarrow> Some (Inl e)
              | Inr timeMin \<Rightarrow>
             (case Date_toISOString dayEnd of
                Inl e \<Rightarrow> Some (Inl e)
              | Inr timeMax \<Rightarrow>
             (case listBusyTimes E (the calendarId) timeMin timeMax timeZone of
                Inl e \<Rightarrow> Some (Inl e)
              | Inr busyItems \<Rightarrow>
                let bufferMs = bufferMinutes * 60 * 1000;
                    busy = map (expand_busy bufferMs) busyItems
                in (case getWeekdayKey E (the dayStart) timeZone of
                      Inl e \<Rightarrow> Some (Inl e)
                    | Inr dayKey \<Rightarrow>
                   (case List.find (\<lambda>d. Some (wh_day d) = dayKey) (workingHours config) of
                      None \<Rightarrow> Some (Inr [])
                    | Some workingDay \<Rightarrow>
                        if \<not> wh_enabled workingDay then Some (Inr [])
                        else period_loop E dateStr timeZone slotDuration minAllowedTime busy
                               (workPeriods_of workingDay) [])))))"


subsection \<open>The date picker\<close>

record CalendarPickerData =
  minDate :: string
  maxDate :: string
  includeDays :: "string list"
  unavailableDates :: "string list"

text \<open>\<^verbatim>\<open>config.workingHours.find((d) => d.day === dayKey)\<close> followed by \<^verbatim>\<open>!workingDay?.enabled\<close>.\<close>

definition day_disabled :: "WorkingHoursDay list \<Rightarrow> Weekday option \<Rightarrow> bool" where
  "day_disabled hours dayKey =
     (case List.find (\<lambda>d. Some (wh_day d) = dayKey) hours of
        None \<Rightarrow> True
      | Some workingDay \<Rightarrow> \<not> wh_enabled workingDay)"

text \<open>The \<^verbatim>\<open>for\<close> loop over \<open>dayOffset\<close>; \<open>acc\<close> is \<^verbatim>\<open>unavailableDates\<close>.\<close>

function unavailable_loop ::
  "CalendarBookingConfig \<Rightarrow> int \<Rightarrow> int \<Rightarrow> int \<Rightarrow> int \<Rightarrow> int \<Rightarrow> string list \<Rightarrow> string list"
where
  "unavailable_loop config year month day maxAdvance dayOffset acc =
     (if dayOffset \<le> maxAdvance then
        (let utcDate = Date_UTC_noon year (month - 1) (day + dayOffset);
             dateStr = first_part CHR ''T'' (toISOString utcDate);
             jsDay = getUTCDay utcDate;
             isoDay = (if jsDay = 0 then 7 else jsDay);
             dayKey = WEEKDAY_KEYS_at (Some (isoDay - 1))
         in unavailable_loop config year month day maxAdvance (dayOffset + 1)
              (if day_disabled (workingHours config) dayKey then acc @ [dateStr] else acc))
      else acc)"
  by pat_completeness auto
termination
  by (relation "measure (\<lambda>(config, year, month, day, maxAdvance, dayOffset, acc). nat (maxAdvance + 1 - dayOffset))") auto

declare unavailable_loop.simps [simp del]

definition nth_opt :: "int option list \<Rightarrow> nat \<Rightarrow> int option" where
  "nth_opt xs i = (if i < length xs then xs ! i else None)"

text \<open>
  \<^verbatim>\<open>getCalendarPickerData()\<close>. A part of \<open>todayStr\<close> that is missing or not a number
  makes \<^verbatim>\<open>Date.UTC\<close> give \<^verbatim>\<open>NaN\<close>, and \<^verbatim>\<open>maxUtcDate.toISOString()\<close> throws.
\<close>

definition getCalendarPickerData :: "env \<Rightarrow> string + CalendarPickerData" where
  "getCalendarPickerData E =
     (let config = envConfig E;
          timeZone = timezone config;
          maxAdvance = (case maxAdvanceDays config of None \<Rightarrow> 14 | Some n \<Rightarrow> n)
      in case formatInTimeZone E (envNow E) timeZone ''yyyy-MM-dd'' of
           Inl e \<Rightarrow> Inl e
         | Inr todayStr \<Rightarrow>
             let parts = map js_Number (split_on CHR ''-'' todayStr)
             in (case (nth_opt parts 0, nth_opt parts 1, nth_opt parts 2) of
                   (Some year, Some month, Some day) \<Rightarrow>
                     Inr \<lparr>minDate = todayStr,
                          maxDate = first_part CHR ''T''
                            (toISOString (Date_UTC_noon year (month - 1) (day + maxAdvance))),
                          includeDays = map (\<lambda>d. WEEKDAY_LABELS (wh_day d))
                            (filter wh_enabled (workingHours config)),
                          unavailableDates = unavailable_loop config year month day maxAdvance 0 []\<rparr>
                 | _ \<Rightarrow> Inl RangeError_invalid_time))"

section \<open>The booking state machine\<close>

text \<open>
  Modelled from the spec: \<^verbatim>\<open>createSuccessResponse\<close>, \<^verbatim>\<open>createCloseResponse\<close> and
  \<^verbatim>\<open>createErrorResponse\<close> belong to the module \<^verbatim>\<open>flow-endpoint-crypto\<close>, which is not
  among the sources. The spec gives a response three shapes: a screen to show with its
  data, a terminal close payload with data and no further screen, and a structured error
  carrying a message and no screen. They are the constructors of \<open>response\<close>;
  \<open>DataResponse\<close> is an object literal \<^verbatim>\<open>{ data: ... }\<close> that a handler builds itself.
\<close>

datatype response =
    SuccessResponse string jsobject
  | CloseResponse jsobject
  | ErrorResponse string
  | DataResponse jsobject

text \<open>
  Modelled from the spec: the three functions of the absent module that build a
  response, one for each shape.
\<close>

definition createSuccessResponse :: "string \<Rightarrow> jsobject \<Rightarrow> response" where
  "createSuccessResponse screen payload = SuccessResponse screen payload"

definition createCloseResponse :: "jsobject \<Rightarrow> response" where
  "createCloseResponse payload = CloseResponse payload"

definition createErrorResponse :: "string \<Rightarrow> response" where
  "createErrorResponse message = ErrorResponse message"

text \<open>
  A property whose value is \<^verbatim>\<open>undefined\<close> is not written by \<^verbatim>\<open>JSON.stringify\<close>:
  the object a handler returns is modelled as what is sent.
\<close>

definition obj_field :: "string \<Rightarrow> json option \<Rightarrow> jsobject" where
  "obj_field k v = (case v of None \<Rightarrow> [] | Some x \<Rightarrow> [(k, x)])"

text \<open>\<^verbatim>\<open>{ ...data, k1: v1, ... }\<close>: a key of \<open>data\<close> keeps its place, a new key goes last.\<close>

definition spread :: "jsobject \<Rightarrow> jsobject \<Rightarrow> jsobject" where
  "spread payload kvs = foldl (\<lambda>obj kv. AList.update (fst kv) (snd kv) obj) payload kvs"

definition slots_json :: "Slot list \<Rightarrow> json" where
  "slots_json slots = JArr (map (\<lambda>s. JObj [(''id'', JStr (slot_id s)), (''title'', JStr (slot_title s))]) slots)"

definition picker_props :: "CalendarPickerData \<Rightarrow> jsobject" where
  "picker_props calendarPicker =
     [(''min_date'', JStr (minDate calendarPicker)),
      (''max_date'', JStr (maxDate calendarPicker)),
      (''include_days'', JArr (map JStr (includeDays calendarPicker))),
      (''unavailable_dates'', JArr (map JStr (unavailableDates calendarPicker)))]"

text \<open>\<^verbatim>\<open>formatInTimeZone\<close> throws on an invalid date.\<close>

definition format_date :: "env \<Rightarrow> int option \<Rightarrow> string \<Rightarrow> string \<Rightarrow> string + string" where
  "format_date E date timeZone pat =
     (case date of None \<Rightarrow> Inl RangeError_invalid_time | Some t \<Rightarrow> formatInTimeZone E t timeZone pat)"

definition getWeekdayLabel :: "env \<Rightarrow> int option \<Rightarrow> string \<Rightarrow> string + string" where
  "getWeekdayLabel E date timeZone =
     (case format_date E date timeZone ''i'' of
        Inl e \<Rightarrow> Inl e
      | Inr s \<Rightarrow>
          Inr (case WEEKDAY_KEYS_at (map_option (\<lambda>isoDay. isoDay - 1) (js_Number s)) of
                 None \<Rightarrow> ''undefined''
               | Some dayKey \<Rightarrow> WEEKDAY_FULL_LABELS dayKey))"

definition formatDateLabel :: "env \<Rightarrow> string \<Rightarrow> string \<Rightarrow> string + string" where
  "formatDateLabel E dateStr timeZone =
     (let date = fromZonedTime E (dateStr @ ''T00:00:00'') timeZone
      in case getWeekdayLabel E date timeZone of
           Inl e \<Rightarrow> Inl e
         | Inr dayLabel \<Rightarrow>
        (case format_date E date timeZone ''dd/MM/yyyy'' of
           Inl e \<Rightarrow> Inl e
         | Inr f \<Rightarrow> Inr (f @ '' ('' @ dayLabel @ '')'')))"

definition formatDateChip :: "env \<Rightarrow> string \<Rightarrow> string \<Rightarrow> string + string" where
  "formatDateChip E dateStr timeZone =
     (let date = fromZonedTime E (dateStr @ ''T00:00:00'') timeZone
      in case getWeekdayLabel E date timeZone of
           Inl e \<Rightarrow> Inl e
         | Inr dayLabel \<Rightarrow>
        (case format_date E date timeZone ''dd/MM'' of
           Inl e \<Rightarrow> Inl e
         | Inr f \<Rightarrow> Inr (dayLabel @ '' - '' @ f)))"

subsection \<open>Creating the event\<close>

record BookingParams =
  bp_slotIso :: "json option"
  bp_service :: "json option"
  bp_customerName :: string
  bp_customerPhone :: json
  bp_notes :: "json option"

record BookingResult =
  eventId :: string
  eventLink :: "string option"

text \<open>
  \<^verbatim>\<open>new Date(v)\<close>: \<^verbatim>\<open>undefined\<close> is an invalid date, \<^verbatim>\<open>null\<close> and the booleans are
  numbers, a number is an instant, anything else is parsed as text.
\<close>

definition new_Date :: "env \<Rightarrow> json option \<Rightarrow> int option" where
  "new_Date E v =
     (case v of
        None \<Rightarrow> None
      | Some JNull \<Rightarrow> Some 0
      | Some (JBool b) \<Rightarrow> Some (if b then 1 else 0)
      | Some (JNum n) \<Rightarrow> Some n
      | Some x \<Rightarrow> Date_parse E (js_str x))"

text \<open>\<^verbatim>\<open>serviceInfo?.title || service\<close>, as a template literal writes it.\<close>

definition serviceName_of :: "json option \<Rightarrow> string" where
  "serviceName_of svc =
     (case List.find (\<lambda>s. Some (JStr (svc_id s)) = svc) DEFAULT_SERVICES of
        None \<Rightarrow> template svc
      | Some serviceInfo \<Rightarrow> if svc_title serviceInfo \<noteq> [] then svc_title serviceInfo else template svc)"

definition newline :: string where
  "newline = [CHR 0x0A]"

definition event_description :: "BookingParams \<Rightarrow> string" where
  "event_description params =
     join_with newline
       (filter (\<lambda>line. line \<noteq> [])
          ([''Cliente: '' @ bp_customerName params,
            ''Telefone: '' @ js_str (bp_customerPhone params)] @
           (if truthy (bp_notes params) then [''Observacoes: '' @ template (bp_notes params)] else []) @
           [[], ''Agendado via WhatsApp (SmartZap)'']))"

text \<open>
  \<^verbatim>\<open>createBookingEvent(params)\<close>. The event object is built before \<^verbatim>\<open>createEvent\<close> is
  called, so an invalid \<open>slotStart\<close> throws in \<^verbatim>\<open>slotStart.toISOString()\<close> and the
  calendar is never asked.
\<close>

definition createBookingEvent :: "env \<Rightarrow> BookingParams \<Rightarrow> string + BookingResult" where
  "createBookingEvent E params =
     (let config = envConfig E;
          calendarId = envCalendarId E
      in if no_calendar calendarId then Inl calendar_not_connected
         else
           let slotStart = new_Date E (bp_slotIso params);
               slotEnd = map_option (\<lambda>t. t + slotDurationMinutes config * 60 * 1000) slotStart
           in case Date_toISOString slotStart of
                Inl e \<Rightarrow> Inl e
              | Inr startIso \<Rightarrow>
             (case Date_toISOString slotEnd of
                Inl e \<Rightarrow> Inl e
              | Inr endIso \<Rightarrow>
             (case createEvent E (the calendarId)
                     \<lparr>summary = serviceName_of (bp_service params) @ '' - '' @ bp_customerName params,
                      description = event_description params,
                      ev_start = \<lparr>dateTime = startIso, et_timeZone = timezone config\<rparr>,
                      ev_end = \<lparr>dateTime = endIso, et_timeZone = timezone config\<rparr>\<rparr> of
                Inl e \<Rightarrow> Inl e
              | Inr event \<Rightarrow>
                  Inr \<lparr>eventId = (case event_id event of None \<Rightarrow> ''created''
                                   | Some i \<Rightarrow> if i = [] then ''created'' else i),
                       eventLink = htmlLink event\<rparr>)))"

subsection \<open>The handlers\<close>

definition handleInit :: "env \<Rightarrow> response" where
  "handleInit E =
     (case getCalendarPickerData E of
        Inl e \<Rightarrow> createErrorResponse ''Erro ao carregar opcoes de agendamento''
      | Inr calendarPicker \<Rightarrow>
          createSuccessResponse ''BOOKING_START''
            ([(''services'', JArr (map (\<lambda>s. JObj [(''id'', JStr (svc_id s)), (''title'', JStr (svc_title s))])
                                   DEFAULT_SERVICES))] @
             picker_props calendarPicker @
             [(''title'', JStr ''Agendar Atendimento''),
              (''subtitle'', JStr ''Escolha o tipo de atendimento e a data desejada''),
              (''error_message'', JStr []),
              (''has_error'', JBool False)]))"

text \<open>
  The message of the TypeError that \<^verbatim>\<open>customerName?.trim()\<close> throws when
  \<open>customer_name\<close> is neither a string nor null: its wording is the engine's.
\<close>

definition TypeError_trim :: string where
  "TypeError_trim = ''customerName?.trim is not a function''"

definition confirmation_message :: "string \<Rightarrow> string \<Rightarrow> string \<Rightarrow> string" where
  "confirmation_message serviceName formattedDate formattedTime =
     ''Agendamento confirmado!'' @ newline @ newline @ serviceName @ newline @
     formattedDate @ '' as '' @ formattedTime @ newline @ newline @ ''Voce recebera um lembrete.''"

text \<open>\<^verbatim>\<open>v || ''\<close>.\<close>

definition or_empty :: "json option \<Rightarrow> json" where
  "or_empty v = (if truthy v then the v else JStr [])"

definition handle_BOOKING_START :: "env \<Rightarrow> jsobject \<Rightarrow> (string + response) option" where
  "handle_BOOKING_START E payload =
     (let selectedDate = map_of payload ''selected_date'';
          selectedService = map_of payload ''selected_service''
      in if \<not> truthy selectedDate then Some (Inr (createErrorResponse ''Selecione uma data''))
         else
           case getAvailableSlots E (template selectedDate) of
             None \<Rightarrow> None
           | Some (Inl e) \<Rightarrow> Some (Inl e)
           | Some (Inr slots) \<Rightarrow>
               if length slots = 0 then
                 (case getCalendarPickerData E of
                    Inl e \<Rightarrow> Some (Inl e)
                  | Inr calendarPicker \<Rightarrow>
                 (case formatDateChip E (template selectedDate) (timezone (envConfig E)) of
                    Inl e \<Rightarrow> Some (Inl e)
                  | Inr formattedChip \<Rightarrow>
                      Some (Inr (createSuccessResponse ''BOOKING_START''
                        (spread payload
                           (picker_props calendarPicker @
                            [(''error_message'', JStr (formattedChip @ '' sem horarios. Escolha outra data.'')),
                             (''has_error'', JBool True)]))))))
               else
                 (case formatDateLabel E (template selectedDate) (timezone (envConfig E)) of
                    Inl e \<Rightarrow> Some (Inl e)
                  | Inr formattedDate \<Rightarrow>
                      Some (Inr (createSuccessResponse ''SELECT_TIME''
                        (obj_field ''selected_service'' selectedService @
                         obj_field ''selected_date'' selectedDate @
                         [(''slots'', slots_json slots),
                          (''title'', JStr ''Escolha o Horario''),
                          (''subtitle'', JStr (''Horarios disponiveis para '' @ formattedDate))])))))"

definition handle_SELECT_TIME :: "jsobject \<Rightarrow> string + response" where
  "handle_SELECT_TIME payload =
     (let selectedSlot = map_of payload ''selected_slot'';
          selectedService = map_of payload ''selected_service'';
          selectedDate = map_of payload ''selected_date''
      in if \<not> truthy selectedSlot then Inr (createErrorResponse ''Selecione um horario'')
         else Inr (createSuccessResponse ''CUSTOMER_INFO''
                (obj_field ''selected_service'' selectedService @
                 obj_field ''selected_date'' selectedDate @
                 obj_field ''selected_slot'' selectedSlot @
                 [(''title'', JStr ''Seus Dados''),
                  (''subtitle'', JStr ''Preencha seus dados para confirmar'')])))"

text \<open>
  \<^verbatim>\<open>customerName?.trim()\<close>: \<^verbatim>\<open>undefined\<close> for a name that is undefined or null, the
  trimmed text for a string, a TypeError for anything else.
\<close>

definition trimmed_name :: "json option \<Rightarrow> string + string option" where
  "trimmed_name v =
     (case v of
        None \<Rightarrow> Inr None
      | Some JNull \<Rightarrow> Inr None
      | Some (JStr s) \<Rightarrow> Inr (Some (trim s))
      | Some x \<Rightarrow> Inl TypeError_trim)"

definition handle_CUSTOMER_INFO :: "env \<Rightarrow> jsobject \<Rightarrow> string + response" where
  "handle_CUSTOMER_INFO E payload =
     (let customer_name = map_of payload ''customer_name'';
          customer_phone = map_of payload ''customer_phone'';
          notes_v = map_of payload ''notes'';
          selectedSlot = map_of payload ''selected_slot'';
          selectedService = map_of payload ''selected_service''
      in case trimmed_name customer_name of
           Inl e \<Rightarrow> Inl e
         | Inr None \<Rightarrow> Inr (createErrorResponse ''Informe seu nome'')
         | Inr (Some name) \<Rightarrow>
             if name = [] then Inr (createErrorResponse ''Informe seu nome'')
             else
              (case createBookingEvent E
                      \<lparr>bp_slotIso = selectedSlot, bp_service = selectedService, bp_customerName = name,
                       bp_customerPhone = or_empty customer_phone, bp_notes = notes_v\<rparr> of
                 Inl e \<Rightarrow> Inl e
               | Inr result \<Rightarrow>
                   let slotDate = new_Date E selectedSlot;
                       tz = timezone (envConfig E)
                   in (case format_date E slotDate tz ''HH:mm'' of
                         Inl e \<Rightarrow> Inl e
                       | Inr formattedTime \<Rightarrow>
                      (case format_date E slotDate tz ''yyyy-MM-dd'' of
                         Inl e \<Rightarrow> Inl e
                       | Inr dateKey \<Rightarrow>
                      (case formatDateLabel E dateKey tz of
                         Inl e \<Rightarrow> Inl e
                       | Inr formattedDate \<Rightarrow>
                           Inr (createCloseResponse
                             ([(''success'', JBool True),
                               (''event_id'', JStr (eventId result))] @
                              obj_field ''selected_service'' selectedService @
                              [(''selected_date'', JStr dateKey)] @
                              obj_field ''selected_slot'' selectedSlot @
                              [(''customer_name'', JStr name),
                               (''customer_phone'', or_empty customer_phone),
                               (''notes'', or_empty notes_v),
                               (''message'', JStr (confirmation_message (serviceName_of selectedService)
                                                    formattedDate formattedTime))])))))))"

text \<open>
  \<^verbatim>\<open>handleDataExchange(screen, data)\<close>: the \<^verbatim>\<open>switch\<close> inside \<^verbatim>\<open>try\<close>, and the
  \<^verbatim>\<open>catch\<close> that turns a thrown error into \<^verbatim>\<open>createErrorResponse(error.message)\<close>.
  \<open>None\<close>: the call does not return.
\<close>

definition handleDataExchange :: "env \<Rightarrow> string \<Rightarrow> jsobject \<Rightarrow> response option" where
  "handleDataExchange E screen payload =
     map_option (\<lambda>r. case r of Inl e \<Rightarrow> createErrorResponse e | Inr resp \<Rightarrow> resp)
       (if screen = ''BOOKING_START'' then handle_BOOKING_START E payload
        else if screen = ''SELECT_TIME'' then Some (handle_SELECT_TIME payload)
        else if screen = ''CUSTOMER_INFO'' then Some (handle_CUSTOMER_INFO E payload)
        else Some (Inr (createErrorResponse (''Tela desconhecida: '' @ screen))))"

text \<open>
  \<^verbatim>\<open>handleBack(screen, data)\<close> has no \<^verbatim>\<open>try\<close>: an error thrown by
  \<^verbatim>\<open>getAvailableSlots\<close> leaves it (\<open>Inl\<close>).
\<close>

definition handleBack :: "env \<Rightarrow> string \<Rightarrow> jsobject \<Rightarrow> (string + response) option" where
  "handleBack E screen payload =
     (if screen = ''SELECT_TIME'' then Some (Inr (handleInit E))
      else if screen = ''CUSTOMER_INFO'' then
        (let selectedDate = map_of payload ''selected_date''
         in if truthy selectedDate then
              (case getAvailableSlots E (template selectedDate) of
                 None \<Rightarrow> None
               | Some (Inl e) \<Rightarrow> Some (Inl e)
               | Some (Inr slots) \<Rightarrow>
                   (case formatDateLabel E (template selectedDate) (timezone (envConfig E)) of
                      Inl e \<Rightarrow> Some (Inl e)
                    | Inr formattedDate \<Rightarrow>
                        Some (Inr (createSuccessResponse ''SELECT_TIME''
                          (spread payload
                             [(''slots'', slots_json slots),
                              (''title'', JStr ''Escolha o Horario''),
                              (''subtitle'', JStr (''Horarios disponiveis para '' @ formattedDate))])))))
            else Some (Inr (handleInit E)))
      else Some (Inr (handleInit E)))"

record FlowDataExchangeRequest =
  req_action :: string
  req_screen :: "string option"
  req_data :: "jsobject option"

text \<open>\<^verbatim>\<open>screen || ''\<close> and \<^verbatim>\<open>data || {}\<close>.\<close>

definition screen_or_empty :: "string option \<Rightarrow> string" where
  "screen_or_empty s = (case s of None \<Rightarrow> [] | Some x \<Rightarrow> x)"

definition data_or_empty :: "jsobject option \<Rightarrow> jsobject" where
  "data_or_empty d = (case d of None \<Rightarrow> [] | Some x \<Rightarrow> x)"

definition handleFlowAction :: "env \<Rightarrow> FlowDataExchangeRequest \<Rightarrow> (string + response) option" where
  "handleFlowAction E request =
     (if (case req_data request of None \<Rightarrow> False | Some d \<Rightarrow> map_of d ''error'' \<noteq> None)
      then Some (Inr (DataResponse [(''acknowledged'', JBool True)]))
      else if req_action request = ''INIT'' then Some (Inr (handleInit E))
      else if req_action request = ''data_exchange'' then
        map_option Inr (handleDataExchange E (screen_or_empty (req_screen request))
                          (data_or_empty (req_data request)))
      else if req_action request = ''BACK'' then
        handleBack E (screen_or_empty (req_screen request)) (data_or_empty (req_data request))
      else Some (Inr (createErrorResponse (''Acao desconhecida: '' @ req_action request))))"

section \<open>The endpoint\<close>

type_synonym bytes = "8 word list"

record EncryptedRequest =
  encrypted_flow_data :: json
  encrypted_aes_key :: json
  initial_vector :: json

record 'q Decrypted =
  decryptedBody :: 'q
  aesKeyBuffer :: bytes
  initialVectorBuffer :: bytes

text \<open>
  The module \<^verbatim>\<open>flow-endpoint-crypto\<close> as \<^verbatim>\<open>route.ts\<close> imports it: \<open>decrypt_fn\<close> is
  \<^verbatim>\<open>decryptRequest\<close> (\<open>Inl\<close>: it throws an error with that message), \<open>encrypt_fn\<close> is
  \<^verbatim>\<open>encryptResponse\<close>, \<open>keypair_fn\<close> is what \<^verbatim>\<open>generateKeyPair()\<close> returns, the public
  key first.
\<close>

record flow_crypto =
  decrypt_fn :: "EncryptedRequest \<Rightarrow> string \<Rightarrow> string + FlowDataExchangeRequest Decrypted"
  encrypt_fn :: "response \<Rightarrow> bytes \<Rightarrow> bytes \<Rightarrow> string + string"
  keypair_fn :: "string \<times> string"

text \<open>The two settings \<^verbatim>\<open>whatsapp_flow_private_key\<close> and \<^verbatim>\<open>whatsapp_flow_public_key\<close>.\<close>

record settings =
  PRIVATE_KEY_SETTING :: "string option"
  PUBLIC_KEY_SETTING :: "string option"

datatype http_payload = JsonBody jsobject | TextBody string

record http_response =
  http_status :: nat
  http_content_type :: string
  http_body :: http_payload

text \<open>\<^verbatim>\<open>NextResponse.json(obj, { status })\<close>.\<close>

definition json_response :: "nat \<Rightarrow> jsobject \<Rightarrow> http_response" where
  "json_response st obj = \<lparr>http_status = st, http_content_type = ''application/json'', http_body = JsonBody obj\<rparr>"

definition text_response :: "string \<Rightarrow> http_response" where
  "text_response t = \<lparr>http_status = 200, http_content_type = ''text/plain'', http_body = TextBody t\<rparr>"

text \<open>\<^verbatim>\<open>s.includes(sub)\<close>.\<close>

fun str_includes :: "string \<Rightarrow> string \<Rightarrow> bool" where
  "str_includes [] sub = (sub = [])"
| "str_includes (x # xs) sub = (take (length sub) (x # xs) = sub \<or> str_includes xs sub)"

text \<open>
  The hint of the 421 response, in UTF-8: the accented letters of \<^verbatim>\<open>publica\<close>,
  \<^verbatim>\<open>nao\<close>, \<^verbatim>\<open>a\<close> and \<^verbatim>\<open>configuracao\<close> are U+00FA, U+00E3, U+00E0, U+00E7 and U+00E3.
\<close>

definition oaep_hint :: string where
  "oaep_hint =
     ''Chave p'' @ [CHR 0xC3, CHR 0xBA] @ ''blica no Flow da Meta n'' @ [CHR 0xC3, CHR 0xA3] @
     ''o corresponde '' @ [CHR 0xC3, CHR 0xA0] @
     '' chave privada do servidor. Verifique a configura'' @ [CHR 0xC3, CHR 0xA7, CHR 0xC3, CHR 0xA3] @
     ''o das chaves.''"

text \<open>The message of the TypeError that destructuring \<^verbatim>\<open>null\<close> throws: the engine's wording.\<close>

definition TypeError_destructure :: string where
  "TypeError_destructure = ''Cannot destructure property of body as it is null.''"

text \<open>
  The private key the request is decrypted with, and the settings after the request:
  a stored key, or a fresh pair that is stored first. The attempt to register the
  public key with the platform sits in its own \<^verbatim>\<open>try\<close> and changes nothing here.
\<close>

definition ensure_private_key :: "flow_crypto \<Rightarrow> settings \<Rightarrow> settings \<times> string" where
  "ensure_private_key C store =
     (case PRIVATE_KEY_SETTING store of
        None \<Rightarrow> (\<lparr>PRIVATE_KEY_SETTING = Some (snd (keypair_fn C)),
                   PUBLIC_KEY_SETTING = Some (fst (keypair_fn C))\<rparr>, snd (keypair_fn C))
      | Some k \<Rightarrow>
          if k = [] then (\<lparr>PRIVATE_KEY_SETTING = Some (snd (keypair_fn C)),
                            PUBLIC_KEY_SETTING = Some (fst (keypair_fn C))\<rparr>, snd (keypair_fn C))
          else (store, k))"

text \<open>The last step of \<^verbatim>\<open>POST\<close>; an error thrown by \<^verbatim>\<open>encryptResponse\<close> reaches the outer \<^verbatim>\<open>catch\<close>.\<close>

definition send_encrypted :: "flow_crypto \<Rightarrow> response \<Rightarrow> FlowDataExchangeRequest Decrypted \<Rightarrow> http_response" where
  "send_encrypted C resp decrypted =
     (case encrypt_fn C resp (aesKeyBuffer decrypted) (initialVectorBuffer decrypted) of
        Inl e \<Rightarrow> json_response 500 [(''error'', JStr e)]
      | Inr encryptedResponse \<Rightarrow> text_response encryptedResponse)"

text \<open>
  \<^verbatim>\<open>POST(request)\<close>. \<open>request_json\<close> is what \<^verbatim>\<open>await request.json()\<close> gives (\<open>Inl\<close>: it
  throws). The result is the settings after the request and the HTTP response; \<open>None\<close>:
  the handler does not return.
\<close>

definition POST :: "flow_crypto \<Rightarrow> env \<Rightarrow> settings \<Rightarrow> string + json \<Rightarrow> (settings \<times> http_response) option" where
  "POST C E store request_json =
     (case request_json of
        Inl e \<Rightarrow> Some (store, json_response 500 [(''error'', JStr e)])
      | Inr JNull \<Rightarrow> Some (store, json_response 500 [(''error'', JStr TypeError_destructure)])
      | Inr parsed \<Rightarrow>
          let props = (case parsed of JObj kvs \<Rightarrow> kvs | _ \<Rightarrow> []);
              flow_data = map_of props ''encrypted_flow_data'';
              aes_key = map_of props ''encrypted_aes_key'';
              iv = map_of props ''initial_vector''
          in if \<not> truthy flow_data \<or> \<not> truthy aes_key \<or> \<not> truthy iv
             then Some (store, json_response 400 [(''error'', JStr ''Campos obrigatorios ausentes'')])
             else
               let store' = fst (ensure_private_key C store);
                   privateKey = snd (ensure_private_key C store)
               in (case decrypt_fn C \<lparr>encrypted_flow_data = the flow_data, encrypted_aes_key = the aes_key,
                                        initial_vector = the iv\<rparr> privateKey of
                     Inl errorMessage \<Rightarrow>
                       let isOaepError = (str_includes errorMessage ''oaep'' \<or> str_includes errorMessage ''OAEP'')
                       in Some (store', json_response 421
                                 ([(''error'', JStr ''Falha na descriptografia'')] @
                                  (if isOaepError then [(''hint'', JStr oaep_hint)] else [])))
                   | Inr decrypted \<Rightarrow>
                       let flowRequest = decryptedBody decrypted
                       in if req_action flowRequest = ''ping''
                          then Some (store', send_encrypted C (DataResponse [(''status'', JStr ''active'')]) decrypted)
                          else (case handleFlowAction E flowRequest of
                                  None \<Rightarrow> None
                                | Some (Inl e) \<Rightarrow> Some (store', send_encrypted C (createErrorResponse e) decrypted)
                                | Some (Inr resp) \<Rightarrow> Some (store', send_encrypted C resp decrypted))))"

subsection \<open>The envelope\<close>

text \<open>
  Modelled from the spec: \<^verbatim>\<open>decryptRequest\<close> and \<^verbatim>\<open>encryptResponse\<close> of the module
  \<^verbatim>\<open>flow-endpoint-crypto\<close>, which is not among the sources. The asymmetric unwrap (OAEP
  padding), the authenticated symmetric cipher and base64 are the platform's
  primitives and are parameters: \<open>rsa_oaep_wrap\<close> is what the peer does with the public
  key, \<open>Inl\<close> is the message of the error a primitive throws. \<open>parse\<close> and \<open>stringify\<close>
  are \<^verbatim>\<open>JSON.parse\<close> and \<^verbatim>\<open>JSON.stringify\<close> at the type of the plaintext.
\<close>

record cipher =
  rsa_oaep_wrap :: "string \<Rightarrow> bytes \<Rightarrow> bytes"
  rsa_oaep_unwrap :: "string \<Rightarrow> bytes \<Rightarrow> string + bytes"
  gcm_encrypt :: "bytes \<Rightarrow> bytes \<Rightarrow> bytes \<Rightarrow> bytes"
  gcm_decrypt :: "bytes \<Rightarrow> bytes \<Rightarrow> bytes \<Rightarrow> string + bytes"
  b64encode :: "bytes \<Rightarrow> string"
  b64decode :: "string \<Rightarrow> bytes"

text \<open>Modelled from the spec: flipping every bit of the request IV, bitwise NOT over all its bytes.\<close>

definition flip_iv :: "bytes \<Rightarrow> bytes" where
  "flip_iv iv = map (\<lambda>b. NOT b) iv"

definition base64_field :: "cipher \<Rightarrow> json \<Rightarrow> string + bytes" where
  "base64_field K v = (case v of JStr s \<Rightarrow> Inr (b64decode K s) | _ \<Rightarrow> Inl ''The first argument must be of type string'')"

text \<open>
  Modelled from the spec: unwrap the session key with the private key, decrypt the
  payload with that key and the envelope's initialization vector, parse the result.
\<close>

definition decryptRequest ::
  "cipher \<Rightarrow> (bytes \<Rightarrow> string + 'q) \<Rightarrow> EncryptedRequest \<Rightarrow> string \<Rightarrow> string + 'q Decrypted"
where
  "decryptRequest K parse envelope privateKey =
     (case base64_field K (encrypted_aes_key envelope) of
        Inl e \<Rightarrow> Inl e
      | Inr wrapped \<Rightarrow>
     (case base64_field K (encrypted_flow_data envelope) of
        Inl e \<Rightarrow> Inl e
      | Inr flowData \<Rightarrow>
     (case base64_field K (initial_vector envelope) of
        Inl e \<Rightarrow> Inl e
      | Inr iv \<Rightarrow>
     (case rsa_oaep_unwrap K privateKey wrapped of
        Inl e \<Rightarrow> Inl e
      | Inr sessionKey \<Rightarrow>
     (case gcm_decrypt K sessionKey iv flowData of
        Inl e \<Rightarrow> Inl e
      | Inr plaintext \<Rightarrow>
     (case parse plaintext of
        Inl e \<Rightarrow> Inl e
      | Inr parsed \<Rightarrow>
          Inr \<lparr>decryptedBody = parsed, aesKeyBuffer = sessionKey, initialVectorBuffer = iv\<rparr>))))))"

text \<open>
  Modelled from the spec: encrypt with the same symmetric key and the flipped request
  IV; the result is base64 text.
\<close>

definition encryptResponse :: "cipher \<Rightarrow> ('p \<Rightarrow> bytes) \<Rightarrow> 'p \<Rightarrow> bytes \<Rightarrow> bytes \<Rightarrow> string" where
  "encryptResponse K stringify resp sessionKey requestIV =
     b64encode K (gcm_encrypt K sessionKey (flip_iv requestIV) (stringify resp))"

text \<open>The module that \<^verbatim>\<open>route.ts\<close> imports, built from the two functions above.\<close>

definition envelope_module ::
  "cipher \<Rightarrow> (bytes \<Rightarrow> string + FlowDataExchangeRequest) \<Rightarrow> (response \<Rightarrow> bytes) \<Rightarrow> string \<times> string
     \<Rightarrow> flow_crypto"
where
  "envelope_module K parse stringify pair =
     \<lparr>decrypt_fn = decryptRequest K parse,
      encrypt_fn = (\<lambda>resp key iv. Inr (encryptResponse K stringify resp key iv)),
      keypair_fn = pair\<rparr>"

section \<open>Concrete collaborators for running the model\<close>

text \<open>
  The zone \<^verbatim>\<open>UTC\<close>: \<open>utc_fromZonedTime\<close> reads \<^verbatim>\<open>yyyy-MM-ddTHH:mm:ss\<close> as a UTC instant,
  \<open>utc_formatInTimeZone\<close> writes the patterns the handlers use. A calendar with a fixed
  list of busy items that accepts every event.
\<close>

definition utc_fromZonedTime :: "string \<Rightarrow> string \<Rightarrow> int option" where
  "utc_fromZonedTime s tz =
     (case split_on CHR ''T'' s of
        [d, t] \<Rightarrow>
          (case (map js_Number (split_on CHR ''-'' d), map js_Number (split_on CHR '':'' t)) of
             ([Some y, Some m, Some dd], [Some h, Some mi, Some se]) \<Rightarrow>
               if 1 \<le> m \<and> m \<le> 12 \<and> 1 \<le> dd \<and> dd \<le> 31 \<and> h < 24 \<and> mi < 60 \<and> se < 60
               then Some (days_from_civil y m dd * msPerDay + h * 3600000 + mi * 60000 + se * 1000)
               else None
           | _ \<Rightarrow> None)
      | _ \<Rightarrow> None)"

definition utc_formatInTimeZone :: "int \<Rightarrow> string \<Rightarrow> string \<Rightarrow> string + string" where
  "utc_formatInTimeZone t tz pat =
     (let iso = toISOString t;
          yyyy = take 4 iso; MM = take 2 (drop 5 iso); dd = take 2 (drop 8 iso);
          HHmm = take 5 (drop 11 iso)
      in if pat = ''i'' then Inr (js_String (if getUTCDay t = 0 then 7 else getUTCDay t))
         else if pat = ''yyyy-MM-dd'' then Inr (take 10 iso)
         else if pat = ''HH:mm'' then Inr HHmm
         else if pat = ''dd/MM/yyyy'' then Inr (dd @ ''/'' @ MM @ ''/'' @ yyyy)
         else if pat = ''dd/MM'' then Inr (dd @ ''/'' @ MM)
         else Inl ''Invalid format string'')"

text \<open>\<^verbatim>\<open>new Date(s)\<close> on the text \<^verbatim>\<open>toISOString\<close> writes; invalid on anything else.\<close>

definition utc_Date_parse :: "string \<Rightarrow> int option" where
  "utc_Date_parse s =
     (if length s = 24 \<and> drop 19 s = ''.000Z'' then utc_fromZonedTime (take 19 s) ''UTC'' else None)"

definition utc_env :: "CalendarBookingConfig \<Rightarrow> string option \<Rightarrow> int \<Rightarrow> BusyItem list \<Rightarrow> env" where
  "utc_env config calendarId nowMs busyItems =
     \<lparr>envConfig = config,
      envCalendarId = calendarId,
      envNow = nowMs,
      listBusyTimes = (\<lambda>cid timeMin timeMax tz. Inr busyItems),
      createEvent = (\<lambda>cid ev. Inr \<lparr>event_id = Some ''evt_1'', htmlLink = None\<rparr>),
      fromZonedTime = utc_fromZonedTime,
      formatInTimeZone = utc_formatInTimeZone,
      Date_parse = utc_Date_parse\<rparr>"

text \<open>
  A stand-in cipher: the wrap of a session key is the key itself, readable with the
  private key \<^verbatim>\<open>priv\<close> only; a ciphertext is the IV, the key and the plaintext in a
  row, and decryption checks the first two. Base64 is read as one character per byte.
\<close>

definition toy_cipher :: cipher where
  "toy_cipher =
     \<lparr>rsa_oaep_wrap = (\<lambda>pub k. k),
      rsa_oaep_unwrap = (\<lambda>priv w. if priv = ''priv'' then Inr w else Inl ''oaep decoding error''),
      gcm_encrypt = (\<lambda>k iv pt. iv @ k @ pt),
      gcm_decrypt = (\<lambda>k iv ct.
         if take (length iv + length k) ct = iv @ k then Inr (drop (length iv + length k) ct)
         else Inl ''Unsupported state or unable to authenticate data''),
      b64encode = map (\<lambda>b. char_of (unat b)),
      b64decode = map (\<lambda>c. of_nat (of_char c))\<rparr>"

section \<open>Notions used in the statements\<close>

text \<open>
  The candidate start times of a work period, in minutes of the day: from the period's
  start in steps of the slot duration, as long as a whole slot ends by the period's end.
\<close>

definition candidates :: "int \<Rightarrow> int \<Rightarrow> int \<Rightarrow> int list" where
  "candidates slotDuration workStart workEnd =
     map (\<lambda>k. workStart + int k * slotDuration) [0..<nat ((workEnd - workStart) div slotDuration)]"

definition period_candidates :: "int \<Rightarrow> Period \<Rightarrow> int list" where
  "period_candidates slotDuration period =
     candidates slotDuration (parseTimeToMinutes (p_start period)) (parseTimeToMinutes (p_end period))"

text \<open>The start instant of the candidate at minute \<open>m\<close> of the day, and the slot returned for it.\<close>

definition start_at :: "env \<Rightarrow> string \<Rightarrow> string \<Rightarrow> int \<Rightarrow> int" where
  "start_at E dateStr timeZone m = the (slotStart_of E dateStr timeZone m)"

definition slot_at :: "env \<Rightarrow> string \<Rightarrow> string \<Rightarrow> int \<Rightarrow> Slot" where
  "slot_at E dateStr timeZone m =
     \<lparr>slot_id = toISOString (start_at E dateStr timeZone m), slot_title = timeStr_of m\<rparr>"

text \<open>
  Calendar days as day numbers since 1970-01-01: the day number that
  \<^verbatim>\<open>Date.UTC(year, month - 1, day, 12, 0, 0)\<close> falls on, the \<^verbatim>\<open>yyyy-MM-dd\<close> text of a
  day number and its weekday.
\<close>

definition utc_day :: "int \<Rightarrow> int \<Rightarrow> int \<Rightarrow> int" where
  "utc_day year month day = Date_UTC_noon year (month - 1) day div msPerDay"

definition iso_date :: "int \<Rightarrow> string" where
  "iso_date n = (case civil_from_days n of (y, m, d) \<Rightarrow> iso_year y @ ''-'' @ pad2 m @ ''-'' @ pad2 d)"

definition weekday_of_day :: "int \<Rightarrow> Weekday option" where
  "weekday_of_day n = WEEKDAY_KEYS_at (Some ((if (n + 4) mod 7 = 0 then 7 else (n + 4) mod 7) - 1))"

text \<open>
  Modelled from the spec: the reference decryptor of the peer, which reads a response
  with the session key and the flipped request IV.
\<close>

definition reference_decrypt :: "cipher \<Rightarrow> bytes \<Rightarrow> bytes \<Rightarrow> string \<Rightarrow> string + bytes" where
  "reference_decrypt K sessionKey requestIV ciphertext =
     gcm_decrypt K sessionKey (flip_iv requestIV) (b64decode K ciphertext)"


section \<open>Scenarios\<close>

text \<open>
  Monday 2024-01-08 in UTC, three work periods of one slot each (09:49, 09:40 and
  10:40), slots of 30 minutes, a buffer of 10 minutes, one busy interval from 10:00 to
  10:30, asked on 2024-01-07 at 00:00 with no advance notice.
\<close>

definition monday_three_periods :: WorkingHoursDay where
  "monday_three_periods =
     \<lparr>wh_day = Mon, wh_enabled = True, wh_start = ''09:00'', wh_end = ''18:00'',
      wh_slots = Some [\<lparr>p_start = ''09:49'', p_end = ''10:19''\<rparr>,
                       \<lparr>p_start = ''09:40'', p_end = ''10:10''\<rparr>,
                       \<lparr>p_start = ''10:40'', p_end = ''11:10''\<rparr>]\<rparr>"

definition overlap_config :: CalendarBookingConfig where
  "overlap_config =
     \<lparr>timezone = ''UTC'', slotDurationMinutes = 30, slotBufferMinutes = 10,
      workingHours = [monday_three_periods],
      minAdvanceHours = Some 0, maxAdvanceDays = Some 14, allowSimultaneous = Some False\<rparr>"

definition overlap_env :: env where
  "overlap_env =
     utc_env overlap_config (Some ''primary'') 1704585600000
       [\<lparr>item_start = 1704708000000, item_end = 1704709800000\<rparr>]"

text \<open>
  Monday 2024-01-08 in UTC, asked at 08:00 with four hours of advance notice: one
  period with its only slot at 12:00 and one with its only slot at 12:01; no busy
  interval.
\<close>

definition noon_config :: CalendarBookingConfig where
  "noon_config =
     \<lparr>timezone = ''UTC'', slotDurationMinutes = 30, slotBufferMinutes = 10,
      workingHours =
        [\<lparr>wh_day = Mon, wh_enabled = True, wh_start = ''09:00'', wh_end = ''18:00'',
          wh_slots = Some [\<lparr>p_start = ''12:00'', p_end = ''12:30''\<rparr>,
                           \<lparr>p_start = ''12:01'', p_end = ''12:31''\<rparr>]\<rparr>],
      minAdvanceHours = Some 4, maxAdvanceDays = Some 14, allowSimultaneous = Some False\<rparr>"

definition noon_env :: env where
  "noon_env = utc_env noon_config (Some ''primary'') 1704700800000 []"

text \<open>The default configuration read in UTC on Sunday 2024-01-07 at 00:00, with a calendar.\<close>

definition default_env :: env where
  "default_env = utc_env (DEFAULT_CONFIG\<lparr>timezone := ''UTC''\<rparr>) (Some ''primary'') 1704585600000 []"

text \<open>The default configuration read in UTC on Sunday 2024-01-07 at 00:00, with no calendar connected.\<close>

definition unconnected_env :: env where
  "unconnected_env = utc_env (DEFAULT_CONFIG\<lparr>timezone := ''UTC''\<rparr>) None 1704585600000 []"

text \<open>
  Stand-ins for \<^verbatim>\<open>JSON.parse\<close> and \<^verbatim>\<open>JSON.stringify\<close> in runs of \<open>POST\<close>: the plaintext of
  a request is the name of its action, and a response is written as its kind or its
  error message.
\<close>

definition text_bytes :: "string \<Rightarrow> bytes" where
  "text_bytes s = map (\<lambda>c. of_nat (of_char c)) s"

definition toy_parse :: "bytes \<Rightarrow> string + FlowDataExchangeRequest" where
  "toy_parse bs = Inr \<lparr>req_action = map (\<lambda>b. char_of (unat b)) bs, req_screen = None, req_data = None\<rparr>"

definition toy_stringify :: "response \<Rightarrow> bytes" where
  "toy_stringify r =
     (case r of
        SuccessResponse screen payload \<Rightarrow> text_bytes screen
      | CloseResponse payload \<Rightarrow> text_bytes ''close''
      | ErrorResponse message \<Rightarrow> text_bytes message
      | DataResponse payload \<Rightarrow> text_bytes ''data'')"

definition toy_module :: flow_crypto where
  "toy_module = envelope_module toy_cipher toy_parse toy_stringify (''pub'', ''priv'')"

definition toy_key :: bytes where
  "toy_key = text_bytes ''0123456789abcdef''"

definition toy_iv :: bytes where
  "toy_iv = text_bytes ''ABCDEFGHIJKLMNOP''"

text \<open>A ping request under the stand-in cipher, as the peer would send it.\<close>

definition ping_request :: json where
  "ping_request =
     JObj [(''encrypted_flow_data'',
              JStr (b64encode toy_cipher (gcm_encrypt toy_cipher toy_key toy_iv (text_bytes ''ping'')))),
           (''encrypted_aes_key'', JStr (b64encode toy_cipher (rsa_oaep_wrap toy_cipher ''pub'' toy_key))),
           (''initial_vector'', JStr (b64encode toy_cipher toy_iv))]"


definition matching_store :: settings where
  "matching_store = \<lparr>PRIVATE_KEY_SETTING = Some ''priv'', PUBLIC_KEY_SETTING = Some ''pub''\<rparr>"






section \<open>Properties\<close>

subsection \<open>The slot loops\<close>

lemma candidates_step:
  assumes "0 < d" "cur + d \<le> we"
  shows "candidates d cur we = cur # candidates d (cur + d) we"
proof -
  have "(we - cur) div d = (we - (cur + d)) div d + 1"
  proof -
    have "we - cur = (we - (cur + d)) + 1 * d" by simp
    then show ?thesis using assms(1) by (metis div_add_self2 less_irrefl mult_1)
  qed
  moreover have "0 \<le> (we - (cur + d)) div d"
    using assms by (simp add: pos_imp_zdiv_nonneg_iff)
  ultimately have n: "nat ((we - cur) div d) = Suc (nat ((we - (cur + d)) div d))"
    by simp
  show ?thesis
    unfolding candidates_def n
    by (simp add: upt_rec[of 0] map_Suc_upt[symmetric] del: upt_Suc add: algebra_simps)
qed

lemma candidates_done:
  assumes "0 < d" "\<not> cur + d \<le> we"
  shows "candidates d cur we = []"
proof -
  have "(we - cur) div d \<le> 0"
    using assms by (smt (verit) div_pos_pos_trivial zdiv_mono1 div_self pos_imp_zdiv_neg_iff)
  then show ?thesis by (simp add: candidates_def)
qed

lemma candidates_shorter:
  assumes "0 < d" "cur + d \<le> we"
  shows "nat ((we - (cur + d)) div d) < nat ((we - cur) div d)"
proof -
  have "we - cur = (we - (cur + d)) + 1 * d" by simp
  then have "(we - cur) div d = (we - (cur + d)) div d + 1"
    using assms(1) by (metis div_add_self2 less_irrefl mult_1)
  moreover have "0 \<le> (we - (cur + d)) div d"
    using assms by (simp add: pos_imp_zdiv_nonneg_iff)
  ultimately show ?thesis by simp
qed

text \<open>
  The candidates in the words of the specification: the minutes from the period's start
  on, a whole number of slot durations after it, whose slot ends by the period's end;
  in increasing order, each once.
\<close>

lemma candidates_set:
  assumes "0 < d"
  shows "set (candidates d ws we) = {m. ws \<le> m \<and> m + d \<le> we \<and> (m - ws) mod d = 0}"
proof (intro set_eqI iffI)
  fix m
  assume "m \<in> set (candidates d ws we)"
  then have "m \<in> (\<lambda>k. ws + int k * d) ` set [0..<nat ((we - ws) div d)]"
    by (simp add: candidates_def)
  then obtain k where "k \<in> set [0..<nat ((we - ws) div d)]" and "m = ws + int k * d"
    by blast
  then have k: "m = ws + int k * d" "k < nat ((we - ws) div d)"
    by simp_all
  have "int k + 1 \<le> (we - ws) div d"
    using k(2) by linarith
  then have "(int k + 1) * d \<le> ((we - ws) div d) * d"
    using assms by (simp add: mult_right_mono)
  also have "\<dots> \<le> we - ws"
    using assms by (metis div_mult_mod_eq add.commute le_add_same_cancel2 pos_mod_sign)
  finally have "m + d \<le> we"
    using k(1) by (simp add: algebra_simps)
  moreover have "ws \<le> m"
    using k(1) assms by simp
  moreover have "(m - ws) mod d = 0"
    using k(1) by simp
  ultimately show "m \<in> {m. ws \<le> m \<and> m + d \<le> we \<and> (m - ws) mod d = 0}"
    by simp
next
  fix m
  assume "m \<in> {m. ws \<le> m \<and> m + d \<le> we \<and> (m - ws) mod d = 0}"
  then have m: "ws \<le> m" "m + d \<le> we" "(m - ws) mod d = 0"
    by auto
  define k where "k = nat ((m - ws) div d)"
  have kd: "(m - ws) div d * d = m - ws"
    using m(3) by (metis add.right_neutral div_mult_mod_eq)
  have k0: "0 \<le> (m - ws) div d"
    using m(1) assms by (simp add: pos_imp_zdiv_nonneg_iff)
  have eq: "m = ws + int k * d"
    using kd k0 by (simp add: k_def)
  have "((m - ws) div d + 1) * d \<le> we - ws"
    using kd m(2) by (simp add: algebra_simps)
  then have "((m - ws) div d + 1) * d div d \<le> (we - ws) div d"
    using assms by (rule zdiv_mono1)
  then have "(m - ws) div d + 1 \<le> (we - ws) div d"
    using assms by simp
  then have "k < nat ((we - ws) div d)"
    using k0 by (simp add: k_def)
  then have "k \<in> set [0..<nat ((we - ws) div d)]"
    by simp
  then have "ws + int k * d \<in> (\<lambda>k. ws + int k * d) ` set [0..<nat ((we - ws) div d)]"
    by (rule imageI)
  then show "m \<in> set (candidates d ws we)"
    unfolding candidates_def eq by (simp only: set_map)
qed

lemma candidates_sorted:
  assumes "0 < d"
  shows "sorted (candidates d ws we) \<and> distinct (candidates d ws we)"
proof -
  have "sorted_wrt (<) (candidates d ws we)"
    unfolding candidates_def
    by (rule sorted_wrt_map_mono[OF sorted_wrt_upt]) (use assms in simp)
  then show ?thesis
    by (simp add: strict_sorted_iff)
qed

lemma slot_loop_char:
  assumes "0 < d"
    and "\<forall>m \<in> set (candidates d cur we). slotStart_of E ds tz m \<noteq> None"
  shows "slot_loop E ds tz d minA busy we cur acc =
     Some (Inr (acc @ map (slot_at E ds tz)
       (filter (\<lambda>m. minA < start_at E ds tz m \<and>
                    \<not> hasConflict busy (start_at E ds tz m) (start_at E ds tz m + d * 60 * 1000))
          (candidates d cur we))))"
  using assms
proof (induction "nat ((we - cur) div d)" arbitrary: cur acc rule: less_induct)
  case less
  show ?case
  proof (cases "cur + d \<le> we")
    case False
    then show ?thesis
      using candidates_done[OF less.prems(1) False]
      by (subst slot_loop.simps) simp
  next
    case True
    note step = candidates_step[OF less.prems(1) True]
    have valid': "\<forall>m \<in> set (candidates d (cur + d) we). slotStart_of E ds tz m \<noteq> None"
      using less.prems(2) step by simp
    obtain s where s: "slotStart_of E ds tz cur = Some s"
      using less.prems(2) step by auto
    have IH: "\<And>acc'. slot_loop E ds tz d minA busy we (cur + d) acc' =
      Some (Inr (acc' @ map (slot_at E ds tz)
       (filter (\<lambda>m. minA < start_at E ds tz m \<and>
                    \<not> hasConflict busy (start_at E ds tz m) (start_at E ds tz m + d * 60 * 1000))
          (candidates d (cur + d) we))))"
      using less.hyps[OF candidates_shorter[OF less.prems(1) True] less.prems(1) valid'] .
    show ?thesis
      by (subst slot_loop.simps) (simp add: True s IH step start_at_def slot_at_def)
  qed
qed

lemma period_loop_char:
  assumes "0 < d"
    and "\<forall>p \<in> set ps. \<forall>m \<in> set (period_candidates d p). slotStart_of E ds tz m \<noteq> None"
  shows "period_loop E ds tz d minA busy ps acc =
     Some (Inr (acc @ concat (map (\<lambda>p. map (slot_at E ds tz)
       (filter (\<lambda>m. minA < start_at E ds tz m \<and>
                    \<not> hasConflict busy (start_at E ds tz m) (start_at E ds tz m + d * 60 * 1000))
          (period_candidates d p))) ps)))"
  using assms(2)
proof (induction ps arbitrary: acc)
  case Nil
  then show ?case by simp
next
  case (Cons p ps)
  have v: "\<forall>m \<in> set (candidates d (parseTimeToMinutes (p_start p)) (parseTimeToMinutes (p_end p))).
             slotStart_of E ds tz m \<noteq> None"
    using Cons.prems by (simp add: period_candidates_def)
  have rest: "\<forall>q \<in> set ps. \<forall>m \<in> set (period_candidates d q). slotStart_of E ds tz m \<noteq> None"
    using Cons.prems by simp
  show ?case
    by (simp add: slot_loop_char[OF assms(1) v] Cons.IH[OF rest] period_candidates_def)
qed

lemma getAvailableSlots_reaches_loop:
  assumes "\<not> no_calendar (envCalendarId E)"
    and "fromZonedTime E (dateStr @ ''T00:00:00'') (timezone (envConfig E)) = Some t0"
    and "fromZonedTime E (dateStr @ ''T23:59:59'') (timezone (envConfig E)) = Some t1"
    and "listBusyTimes E (the (envCalendarId E)) (toISOString t0) (toISOString t1)
           (timezone (envConfig E)) = Inr busyItems"
    and "getWeekdayKey E t0 (timezone (envConfig E)) = Inr dayKey"
    and "List.find (\<lambda>d. Some (wh_day d) = dayKey) (workingHours (envConfig E)) = Some workingDay"
    and "wh_enabled workingDay"
  shows "getAvailableSlots E dateStr =
     period_loop E dateStr (timezone (envConfig E)) (slotDurationMinutes (envConfig E))
       (envNow E + (case minAdvanceHours (envConfig E) of None \<Rightarrow> 0 | Some h \<Rightarrow> h) * 60 * 60 * 1000)
       (map (expand_busy (slotBufferMinutes (envConfig E) * 60 * 1000)) busyItems)
       (workPeriods_of workingDay) []"
  using assms by (simp add: getAvailableSlots_def Date_toISOString_def Let_def)

lemma hasConflict_expand:
  "hasConflict (map (expand_busy bufferMs) busyItems) s e =
     (\<exists>b \<in> set busyItems. s < item_end b + bufferMs \<and> e > item_start b - bufferMs)"
  by (simp add: hasConflict_def list_ex_iff expand_busy_def)

subsection \<open>Busy intervals\<close>

text \<open>
  C4. On a day that is open for booking (the calendar is connected, the date is valid,
  the busy lookup answers \<open>busyItems\<close>, the date's weekday resolves to an enabled entry,
  the slot duration is positive and every candidate is a valid instant),
  \<open>getAvailableSlots\<close> returns, period by period and in order, the slots of the
  candidates that pass the advance-notice check, without those that overlap a busy
  interval: a candidate is discarded exactly when \<open>start < busyEnd + buffer\<close> and
  \<open>start + duration > busyStart - buffer\<close> for some busy interval, every busy interval
  being widened by \<open>slotBufferMinutes\<close> on both ends.
\<close>

theorem busy_overlap_filter:
  assumes "\<not> no_calendar (envCalendarId E)"
    and "fromZonedTime E (dateStr @ ''T00:00:00'') (timezone (envConfig E)) = Some t0"
    and "fromZonedTime E (dateStr @ ''T23:59:59'') (timezone (envConfig E)) = Some t1"
    and "listBusyTimes E (the (envCalendarId E)) (toISOString t0) (toISOString t1)
           (timezone (envConfig E)) = Inr busyItems"
    and "getWeekdayKey E t0 (timezone (envConfig E)) = Inr dayKey"
    and "List.find (\<lambda>d. Some (wh_day d) = dayKey) (workingHours (envConfig E)) = Some workingDay"
    and "wh_enabled workingDay"
    and "0 < slotDurationMinutes (envConfig E)"
    and "\<forall>p \<in> set (workPeriods_of workingDay).
           \<forall>m \<in> set (period_candidates (slotDurationMinutes (envConfig E)) p).
             slotStart_of E dateStr (timezone (envConfig E)) m \<noteq> None"
  shows "getAvailableSlots E dateStr =
     Some (Inr (concat (map (\<lambda>p. map (slot_at E dateStr (timezone (envConfig E)))
       (filter (\<lambda>m. \<not> (\<exists>b \<in> set busyItems.
                  start_at E dateStr (timezone (envConfig E)) m
                    < item_end b + slotBufferMinutes (envConfig E) * 60 * 1000 \<and>
                  start_at E dateStr (timezone (envConfig E)) m + slotDurationMinutes (envConfig E) * 60 * 1000
                    > item_start b - slotBufferMinutes (envConfig E) * 60 * 1000))
          (filter (\<lambda>m. envNow E + (case minAdvanceHours (envConfig E) of None \<Rightarrow> 0 | Some h \<Rightarrow> h) * 60 * 60 * 1000
                         < start_at E dateStr (timezone (envConfig E)) m)
             (period_candidates (slotDurationMinutes (envConfig E)) p))))
       (workPeriods_of workingDay))))"
  unfolding getAvailableSlots_reaches_loop[OF assms(1-7)] period_loop_char[OF assms(8,9)]
  by (simp add: hasConflict_expand conj_commute)

text \<open>
  The example of C4: with the busy interval 10:00 to 10:30, a buffer of 10 minutes and
  slots of 30 minutes, the candidates at 09:49 and 09:40 are discarded and the one at
  10:40 is returned.
\<close>

theorem busy_overlap_filter_witness:
  "getAvailableSlots overlap_env ''2024-01-08'' =
     Some (Inr [\<lparr>slot_id = ''2024-01-08T10:40:00.000Z'', slot_title = ''10:40''\<rparr>])"
proof -
  have h1: "\<not> no_calendar (envCalendarId overlap_env)"
    by code_simp
  have h2: "fromZonedTime overlap_env (''2024-01-08'' @ ''T00:00:00'') (timezone (envConfig overlap_env))
              = Some 1704672000000"
    by code_simp
  have h3: "fromZonedTime overlap_env (''2024-01-08'' @ ''T23:59:59'') (timezone (envConfig overlap_env))
              = Some 1704758399000"
    by code_simp
  have h4: "listBusyTimes overlap_env (the (envCalendarId overlap_env)) (toISOString 1704672000000)
              (toISOString 1704758399000) (timezone (envConfig overlap_env))
              = Inr [\<lparr>item_start = 1704708000000, item_end = 1704709800000\<rparr>]"
    by code_simp
  have h5: "getWeekdayKey overlap_env 1704672000000 (timezone (envConfig overlap_env)) = Inr (Some Mon)"
    by code_simp
  have h6: "List.find (\<lambda>d. Some (wh_day d) = Some Mon) (workingHours (envConfig overlap_env))
              = Some monday_three_periods"
    by code_simp
  have h7: "wh_enabled monday_three_periods"
    by code_simp
  have h8: "0 < slotDurationMinutes (envConfig overlap_env)"
    by code_simp
  have h9: "\<forall>p \<in> set (workPeriods_of monday_three_periods).
              \<forall>m \<in> set (period_candidates (slotDurationMinutes (envConfig overlap_env)) p).
                slotStart_of overlap_env ''2024-01-08'' (timezone (envConfig overlap_env)) m \<noteq> None"
    by code_simp
  show ?thesis
    unfolding busy_overlap_filter[OF h1 h2 h3 h4 h5 h6 h7 h8 h9]
    by code_simp
qed

subsection \<open>Advance notice\<close>

text \<open>
  C5. On a day that is open for booking, \<open>getAvailableSlots\<close> returns, period by period
  and in order, the slots of the candidates that conflict with no busy interval,
  without those whose start instant is at or before \<open>now + minAdvanceHours\<close> (0 hours
  when the setting is absent): such a candidate is discarded if and only if
  \<open>start \<le> now + minAdvanceHours\<close>.
\<close>

theorem advance_notice_filter:
  assumes "\<not> no_calendar (envCalendarId E)"
    and "fromZonedTime E (dateStr @ ''T00:00:00'') (timezone (envConfig E)) = Some t0"
    and "fromZonedTime E (dateStr @ ''T23:59:59'') (timezone (envConfig E)) = Some t1"
    and "listBusyTimes E (the (envCalendarId E)) (toISOString t0) (toISOString t1)
           (timezone (envConfig E)) = Inr busyItems"
    and "getWeekdayKey E t0 (timezone (envConfig E)) = Inr dayKey"
    and "List.find (\<lambda>d. Some (wh_day d) = dayKey) (workingHours (envConfig E)) = Some workingDay"
    and "wh_enabled workingDay"
    and "0 < slotDurationMinutes (envConfig E)"
    and "\<forall>p \<in> set (workPeriods_of workingDay).
           \<forall>m \<in> set (period_candidates (slotDurationMinutes (envConfig E)) p).
             slotStart_of E dateStr (timezone (envConfig E)) m \<noteq> None"
  shows "getAvailableSlots E dateStr =
     Some (Inr (concat (map (\<lambda>p. map (slot_at E dateStr (timezone (envConfig E)))
       (filter (\<lambda>m. \<not> start_at E dateStr (timezone (envConfig E)) m
                       \<le> envNow E + (case minAdvanceHours (envConfig E) of None \<Rightarrow> 0 | Some h \<Rightarrow> h) * 60 * 60 * 1000)
          (filter (\<lambda>m. \<not> hasConflict (map (expand_busy (slotBufferMinutes (envConfig E) * 60 * 1000)) busyItems)
                          (start_at E dateStr (timezone (envConfig E)) m)
                          (start_at E dateStr (timezone (envConfig E)) m + slotDurationMinutes (envConfig E) * 60 * 1000))
             (period_candidates (slotDurationMinutes (envConfig E)) p))))
       (workPeriods_of workingDay))))"
  unfolding getAvailableSlots_reaches_loop[OF assms(1-7)] period_loop_char[OF assms(8,9)]
  by (simp add: conj_commute not_le)

text \<open>
  The example of C5: with four hours of advance notice and now at 08:00, the candidate
  at 12:00 is discarded and the one at 12:01 is returned.
\<close>

theorem advance_notice_filter_witness:
  "getAvailableSlots noon_env ''2024-01-08'' =
     Some (Inr [\<lparr>slot_id = ''2024-01-08T12:01:00.000Z'', slot_title = ''12:01''\<rparr>])"
proof -
  let ?wd = "\<lparr>wh_day = Mon, wh_enabled = True, wh_start = ''09:00'', wh_end = ''18:00'',
               wh_slots = Some [\<lparr>p_start = ''12:00'', p_end = ''12:30''\<rparr>,
                                \<lparr>p_start = ''12:01'', p_end = ''12:31''\<rparr>]\<rparr>"
  have h1: "\<not> no_calendar (envCalendarId noon_env)"
    by code_simp
  have h2: "fromZonedTime noon_env (''2024-01-08'' @ ''T00:00:00'') (timezone (envConfig noon_env))
              = Some 1704672000000"
    by code_simp
  have h3: "fromZonedTime noon_env (''2024-01-08'' @ ''T23:59:59'') (timezone (envConfig noon_env))
              = Some 1704758399000"
    by code_simp
  have h4: "listBusyTimes noon_env (the (envCalendarId noon_env)) (toISOString 1704672000000)
              (toISOString 1704758399000) (timezone (envConfig noon_env)) = Inr []"
    by code_simp
  have h5: "getWeekdayKey noon_env 1704672000000 (timezone (envConfig noon_env)) = Inr (Some Mon)"
    by code_simp
  have h6: "List.find (\<lambda>d. Some (wh_day d) = Some Mon) (workingHours (envConfig noon_env)) = Some ?wd"
    by code_simp
  have h7: "wh_enabled ?wd"
    by simp
  have h8: "0 < slotDurationMinutes (envConfig noon_env)"
    by code_simp
  have h9: "\<forall>p \<in> set (workPeriods_of ?wd).
              \<forall>m \<in> set (period_candidates (slotDurationMinutes (envConfig noon_env)) p).
                slotStart_of noon_env ''2024-01-08'' (timezone (envConfig noon_env)) m \<noteq> None"
    by code_simp
  show ?thesis
    unfolding advance_notice_filter[OF h1 h2 h3 h4 h5 h6 h7 h8 h9]
    by code_simp
qed

subsection \<open>The date picker\<close>

lemma Date_UTC_noon_day: "Date_UTC_noon y mi (d + k) div msPerDay = Date_UTC_noon y mi d div msPerDay + k"
proof -
  have "\<And>a::int. (a * 86400000 + 43200000) div 86400000 = a" by simp
  then show ?thesis by (simp add: Date_UTC_noon_def msPerDay_def Let_def algebra_simps)
qed

lemma digit_char_not_T: "digit_char d \<noteq> CHR ''T''"
  by (simp add: digit_char_def)

lemma digits_no_T: "CHR ''T'' \<notin> set (digits n)"
proof (induction n rule: digits.induct)
  case (1 n)
  show ?case
  proof (cases "n < 10")
    case True
    then show ?thesis
      using digit_char_not_T[of n] by (subst digits.simps) auto
  next
    case False
    then show ?thesis
      using 1 digit_char_not_T[of "n mod 10"] by (subst digits.simps) auto
  qed
qed

lemma padStart_no_T: "CHR ''T'' \<notin> set s \<Longrightarrow> CHR ''T'' \<notin> set (padStart n s)"
  by (auto simp: padStart_def)

lemma split_on_prefix: "c \<notin> set xs \<Longrightarrow> split_on c (xs @ c # ys) = xs # split_on c ys"
  by (induction xs) auto

lemma first_part_prefix: "c \<notin> set xs \<Longrightarrow> first_part c (xs @ c # ys) = xs"
  by (simp add: first_part_def split_on_prefix)

lemma iso_date_no_T: "CHR ''T'' \<notin> set (iso_date n)"
  by (auto simp: iso_date_def iso_year_def pad2_def digits_no_T padStart_no_T split: prod.splits)

lemma toISOString_date: "first_part CHR ''T'' (toISOString t) = iso_date (t div msPerDay)"
proof -
  obtain y m d where c: "civil_from_days (t div msPerDay) = (y, m, d)"
    by (cases "civil_from_days (t div msPerDay)") auto
  have "\<exists>rest. toISOString t = iso_date (t div msPerDay) @ CHR ''T'' # rest"
    by (simp add: toISOString_def iso_date_def Let_def c)
  then show ?thesis using first_part_prefix[OF iso_date_no_T] by auto
qed

lemma unavailable_loop_char:
  "unavailable_loop config year month day maxAdvance dayOffset acc =
     acc @ map (\<lambda>k. iso_date (utc_day year month day + k))
             (filter (\<lambda>k. day_disabled (workingHours config) (weekday_of_day (utc_day year month day + k)))
                [dayOffset..maxAdvance])"
proof (induction config year month day maxAdvance dayOffset acc rule: unavailable_loop.induct)
  case (1 config year month day maxAdvance dayOffset acc)
  show ?case
  proof (cases "dayOffset \<le> maxAdvance")
    case False
    then show ?thesis by (subst unavailable_loop.simps) simp
  next
    case True
    have u: "[dayOffset..maxAdvance] = dayOffset # [dayOffset + 1..maxAdvance]"
      using True by (simp add: upto_rec1)
    have day: "Date_UTC_noon year (month - 1) (day + dayOffset) div msPerDay = utc_day year month day + dayOffset"
      by (simp add: utc_day_def Date_UTC_noon_day)
    have wd: "WEEKDAY_KEYS_at (Some ((if getUTCDay (Date_UTC_noon year (month - 1) (day + dayOffset)) = 0 then 7
                 else getUTCDay (Date_UTC_noon year (month - 1) (day + dayOffset))) - 1))
             = weekday_of_day (utc_day year month day + dayOffset)"
      by (simp add: getUTCDay_def weekday_of_day_def day)
    show ?thesis
      apply (subst unavailable_loop.simps)
      apply (simp only: True if_True Let_def)
      apply (subst 1)
           apply (rule True)
          apply (rule refl)+
      apply (simp only: wd toISOString_date day u)
      apply simp
      done
  qed
qed

text \<open>
  C8. When today's date in the configured zone is written \<open>todayStr\<close> and reads as
  \<open>year\<close>, \<open>month\<close>, \<open>day\<close>, \<open>getCalendarPickerData\<close> returns \<open>minDate = todayStr\<close>,
  \<open>maxDate\<close> the date \<open>maxAdvanceDays\<close> days after that day (14 when the setting is
  absent), \<open>includeDays\<close> the labels of the entries with \<open>enabled = true\<close>, in their
  order, and \<open>unavailableDates\<close> the dates of the days from today to \<open>maxDate\<close>
  inclusive, in order, whose weekday has no enabled entry.
\<close>

theorem picker_data:
  assumes "formatInTimeZone E (envNow E) (timezone (envConfig E)) ''yyyy-MM-dd'' = Inr todayStr"
    and "nth_opt (map js_Number (split_on CHR ''-'' todayStr)) 0 = Some year"
    and "nth_opt (map js_Number (split_on CHR ''-'' todayStr)) 1 = Some month"
    and "nth_opt (map js_Number (split_on CHR ''-'' todayStr)) 2 = Some day"
  shows "getCalendarPickerData E =
     Inr \<lparr>minDate = todayStr,
          maxDate = iso_date (utc_day year month day
                      + (case maxAdvanceDays (envConfig E) of None \<Rightarrow> 14 | Some n \<Rightarrow> n)),
          includeDays = map (\<lambda>d. WEEKDAY_LABELS (wh_day d)) (filter wh_enabled (workingHours (envConfig E))),
          unavailableDates =
            map (\<lambda>k. iso_date (utc_day year month day + k))
              (filter (\<lambda>k. day_disabled (workingHours (envConfig E)) (weekday_of_day (utc_day year month day + k)))
                 [0..(case maxAdvanceDays (envConfig E) of None \<Rightarrow> 14 | Some n \<Rightarrow> n)])\<rparr>"
  using assms
  by (simp add: getCalendarPickerData_def Let_def unavailable_loop_char toISOString_date
      utc_day_def Date_UTC_noon_day)

text \<open>
  C8 on the default configuration, on Sunday 2024-01-07: fourteen days ahead, Monday to
  Friday allowed, the five Saturdays and Sundays of the range excluded.
\<close>

theorem picker_data_witness:
  "getCalendarPickerData default_env =
     Inr \<lparr>minDate = ''2024-01-07'', maxDate = ''2024-01-21'',
          includeDays = [''Mon'', ''Tue'', ''Wed'', ''Thu'', ''Fri''],
          unavailableDates = [''2024-01-07'', ''2024-01-13'', ''2024-01-14'', ''2024-01-20'', ''2024-01-21'']\<rparr>"
proof -
  have h1: "formatInTimeZone default_env (envNow default_env) (timezone (envConfig default_env)) ''yyyy-MM-dd''
              = Inr ''2024-01-07''"
    by code_simp
  have h2: "nth_opt (map js_Number (split_on CHR ''-'' ''2024-01-07'')) 0 = Some 2024"
    by code_simp
  have h3: "nth_opt (map js_Number (split_on CHR ''-'' ''2024-01-07'')) 1 = Some 1"
    by code_simp
  have h4: "nth_opt (map js_Number (split_on CHR ''-'' ''2024-01-07'')) 2 = Some 7"
    by code_simp
  show ?thesis
    unfolding picker_data[OF h1 h2 h3 h4]
    by code_simp
qed

subsection \<open>The calendar check comes first\<close>

lemma getAvailableSlots_calendar_first:
  "no_calendar (envCalendarId E) \<Longrightarrow> getAvailableSlots E dateStr = Some (Inl calendar_not_connected)"
  by (simp add: getAvailableSlots_def Let_def)

text \<open>
  C9. \<open>getAvailableSlots\<close> looks for a connected calendar before anything else and
  throws when there is none, whatever the date and its weekday; a \<open>BOOKING_START\<close>
  data exchange with a selected date then answers the generic error response with
  that message, and never the \<open>BOOKING_START\<close> screen again.
\<close>

theorem calendar_checked_before_weekday:
  assumes "no_calendar (envCalendarId E)"
  shows "getAvailableSlots E dateStr = Some (Inl calendar_not_connected)
    \<and> (truthy (map_of payload ''selected_date'') \<longrightarrow>
         handleDataExchange E ''BOOKING_START'' payload = Some (createErrorResponse calendar_not_connected)
         \<and> (\<forall>shown. handleDataExchange E ''BOOKING_START'' payload
                      \<noteq> Some (createSuccessResponse ''BOOKING_START'' shown)))"
  using assms
  by (simp add: handleDataExchange_def handle_BOOKING_START_def Let_def getAvailableSlots_calendar_first
      createErrorResponse_def createSuccessResponse_def)

text \<open>C9 on Sunday 2024-01-07, a day the default configuration keeps closed.\<close>

theorem calendar_checked_before_weekday_witness:
  "day_disabled (workingHours (envConfig unconnected_env)) (weekday_of_day (utc_day 2024 1 7))
   \<and> getAvailableSlots unconnected_env ''2024-01-07'' = Some (Inl ''Google Calendar nao conectado'')
   \<and> handleDataExchange unconnected_env ''BOOKING_START'' [(''selected_date'', JStr ''2024-01-07'')]
       = Some (ErrorResponse ''Google Calendar nao conectado'')"
proof -
  have h: "no_calendar (envCalendarId unconnected_env)"
    by code_simp
  have t: "truthy (map_of [(''selected_date'', JStr ''2024-01-07'')] ''selected_date'')"
    by simp
  have d: "day_disabled (workingHours (envConfig unconnected_env)) (weekday_of_day (utc_day 2024 1 7))"
    by code_simp
  show ?thesis
    using calendar_checked_before_weekday[OF h, of "''2024-01-07''" "[(''selected_date'', JStr ''2024-01-07'')]"] t d
    by (simp add: calendar_not_connected_def createErrorResponse_def)
qed

subsection \<open>A day that is closed\<close>






subsection \<open>Validation\<close>




subsection \<open>A slot that is not a date\<close>





subsection \<open>The envelope\<close>

lemma flip_iv_length: "length (flip_iv iv) = length iv"
  by (simp add: flip_iv_def)

lemma flip_iv_bits: "i < length iv \<Longrightarrow> n < 8 \<Longrightarrow> bit (flip_iv iv ! i) n = (\<not> bit (iv ! i) n)"
  by (simp add: flip_iv_def bit_not_iff)

lemma flip_iv_involution: "flip_iv (flip_iv iv) = iv"
  by (induction iv) (simp_all add: flip_iv_def)

lemma not_byte_neq: "NOT b \<noteq> (b :: 8 word)"
proof
  assume "NOT b = b"
  then have "bit (NOT b) 0 = bit b 0" by simp
  then show False by (simp add: bit_not_iff)
qed

lemma flip_iv_differs: "iv \<noteq> [] \<Longrightarrow> flip_iv iv \<noteq> iv"
  by (cases iv) (auto simp: flip_iv_def not_byte_neq)

lemma POST_success_body:
  assumes "POST (envelope_module K parse stringify pair) E store (Inr (JObj props)) = Some (store', r)"
    and "http_status r = 200"
    and "map_of props ''initial_vector'' = Some (JStr ivText)"
  shows "\<exists>resp key. http_body r =
           TextBody (b64encode K (gcm_encrypt K key (flip_iv (b64decode K ivText)) (stringify resp)))"
proof -
  let ?C = "envelope_module K parse stringify pair"
  let ?env = "\<lparr>encrypted_flow_data = the (map_of props ''encrypted_flow_data''),
               encrypted_aes_key = the (map_of props ''encrypted_aes_key''),
               initial_vector = the (map_of props ''initial_vector'')\<rparr>"
  have sent: "\<And>resp d. send_encrypted ?C resp d =
      text_response (b64encode K (gcm_encrypt K (aesKeyBuffer d) (flip_iv (initialVectorBuffer d)) (stringify resp)))"
    by (simp add: send_encrypted_def envelope_module_def encryptResponse_def)
  have iv: "\<And>key d. decrypt_fn ?C ?env key = Inr d \<Longrightarrow> initialVectorBuffer d = b64decode K ivText"
    using assms(3)
    by (auto simp: envelope_module_def decryptRequest_def base64_field_def split: sum.splits json.splits)
  show ?thesis
    using assms(1,2)
    by (auto simp: POST_def Let_def json_response_def text_response_def sent dest!: iv
        split: if_splits sum.splits option.splits; blast)
qed

lemma toy_gcm: "gcm_decrypt toy_cipher k iv (gcm_encrypt toy_cipher k iv pt) = Inr pt"
  by (simp add: toy_cipher_def)

lemma toy_bound:
  "length iv = length iv' \<Longrightarrow> iv \<noteq> iv' \<Longrightarrow> isl (gcm_decrypt toy_cipher k iv' (gcm_encrypt toy_cipher k iv pt))"
  by (simp add: toy_cipher_def)

lemma byte_char_round: "word_of_nat (unat (b :: 8 word) mod 256) = b"
proof -
  have "unat b < 256"
    using unsigned_less[of b, where 'a = nat] by simp
  then show ?thesis by simp
qed

lemma toy_b64: "b64decode toy_cipher (b64encode toy_cipher bs) = bs"
  by (induction bs) (simp_all add: toy_cipher_def byte_char_round)

lemma toy_rsa: "rsa_oaep_unwrap toy_cipher ''priv'' (rsa_oaep_wrap toy_cipher pub k) = Inr k"
  by (simp add: toy_cipher_def)

lemma text_bytes_round: "map (\<lambda>b. char_of (unat b)) (text_bytes s) = s"
proof -
  have "\<And>c. char_of (unat (of_nat (of_char c) :: 8 word)) = c"
    by (simp add: unat_of_nat)
  then show ?thesis
    by (simp add: text_bytes_def map_idI)
qed

lemma toy_b64_empty: "(b64encode toy_cipher bs = []) = (bs = [])"
  by (simp add: toy_cipher_def)

lemma toy_gcm_empty: "(gcm_encrypt toy_cipher k iv pt = []) = (iv = [] \<and> k = [] \<and> pt = [])"
  by (auto simp: toy_cipher_def)

lemma toy_wrap: "rsa_oaep_wrap toy_cipher pub k = k"
  by (simp add: toy_cipher_def)

lemma toy_unwrap: "rsa_oaep_unwrap toy_cipher priv w = (if priv = ''priv'' then Inr w else Inl ''oaep decoding error'')"
  by (simp add: toy_cipher_def)

lemma toy_key_not_empty: "toy_key \<noteq> []"
  by (simp add: toy_key_def text_bytes_def)

lemma toy_iv_not_empty: "toy_iv \<noteq> []"
  by (simp add: toy_iv_def text_bytes_def)

text \<open>
  C1. For a cipher that decrypts what it encrypts and rejects a ciphertext under
  another IV of the same length, and base64 that decodes what it encodes:
  \<open>encryptResponse\<close> encrypts under the flipped request IV, which has the same 16
  bytes with every bit complemented; every 200 response of \<open>POST\<close> is such a
  ciphertext under the complement of the request's \<open>initial_vector\<close>; the reference
  decryptor reads it, and fails on a ciphertext made with the request IV itself.
\<close>

theorem response_iv_is_flipped:
  assumes "\<forall>k iv pt. gcm_decrypt K k iv (gcm_encrypt K k iv pt) = Inr pt"
    and "\<forall>k iv iv' pt. length iv = length iv' \<longrightarrow> iv \<noteq> iv' \<longrightarrow>
           isl (gcm_decrypt K k iv' (gcm_encrypt K k iv pt))"
    and "\<forall>bs. b64decode K (b64encode K bs) = bs"
    and "length requestIV = 16"
  shows "encryptResponse K stringify resp key requestIV =
           b64encode K (gcm_encrypt K key (flip_iv requestIV) (stringify resp))
    \<and> length (flip_iv requestIV) = 16
    \<and> (\<forall>i < 16. \<forall>n < 8. bit (flip_iv requestIV ! i) n = (\<not> bit (requestIV ! i) n))
    \<and> (\<forall>E store props store' r ivText.
          POST (envelope_module K parse stringify pair) E store (Inr (JObj props)) = Some (store', r) \<longrightarrow>
          http_status r = 200 \<longrightarrow> map_of props ''initial_vector'' = Some (JStr ivText) \<longrightarrow>
          (\<exists>sent sessionKey. http_body r =
             TextBody (b64encode K (gcm_encrypt K sessionKey (flip_iv (b64decode K ivText)) (stringify sent)))))
    \<and> reference_decrypt K key requestIV (encryptResponse K stringify resp key requestIV) = Inr (stringify resp)
    \<and> isl (reference_decrypt K key requestIV (b64encode K (gcm_encrypt K key requestIV (stringify resp))))"
proof -
  have "requestIV \<noteq> []"
    using assms(4) by auto
  then have ne: "requestIV \<noteq> flip_iv requestIV"
    using flip_iv_differs[of requestIV] by metis
  have fails: "isl (gcm_decrypt K key (flip_iv requestIV) (gcm_encrypt K key requestIV (stringify resp)))"
    using assms(2) ne by (simp add: flip_iv_length)
  show ?thesis
    using assms(1,3,4) fails POST_success_body
    by (simp add: encryptResponse_def reference_decrypt_def flip_iv_length flip_iv_bits)
qed

text \<open>C1 on a ping request under the stand-in cipher.\<close>

theorem response_iv_is_flipped_witness:
  "POST toy_module default_env matching_store (Inr ping_request)
     = Some (matching_store,
             text_response (b64encode toy_cipher
               (gcm_encrypt toy_cipher toy_key (flip_iv toy_iv)
                  (toy_stringify (DataResponse [(''status'', JStr ''active'')])))))
   \<and> reference_decrypt toy_cipher toy_key toy_iv
       (encryptResponse toy_cipher toy_stringify (DataResponse [(''status'', JStr ''active'')]) toy_key toy_iv)
       = Inr (toy_stringify (DataResponse [(''status'', JStr ''active'')]))
   \<and> isl (reference_decrypt toy_cipher toy_key toy_iv
            (b64encode toy_cipher (gcm_encrypt toy_cipher toy_key toy_iv
               (toy_stringify (DataResponse [(''status'', JStr ''active'')])))))"
proof -
  have h1: "\<forall>k iv pt. gcm_decrypt toy_cipher k iv (gcm_encrypt toy_cipher k iv pt) = Inr pt"
    by (simp add: toy_gcm)
  have h2: "\<forall>k iv iv' pt. length iv = length iv' \<longrightarrow> iv \<noteq> iv' \<longrightarrow>
              isl (gcm_decrypt toy_cipher k iv' (gcm_encrypt toy_cipher k iv pt))"
    by (simp add: toy_bound)
  have h3: "\<forall>bs. b64decode toy_cipher (b64encode toy_cipher bs) = bs"
    by (simp add: toy_b64)
  have h4: "length toy_iv = 16"
    by (simp add: toy_iv_def text_bytes_def)
  have run: "POST toy_module default_env matching_store (Inr ping_request)
     = Some (matching_store,
             text_response (b64encode toy_cipher
               (gcm_encrypt toy_cipher toy_key (flip_iv toy_iv)
                  (toy_stringify (DataResponse [(''status'', JStr ''active'')])))))"
    by (simp add: POST_def ping_request_def Let_def toy_b64_empty toy_gcm_empty toy_key_not_empty
        toy_iv_not_empty ensure_private_key_def matching_store_def toy_module_def envelope_module_def
        decryptRequest_def base64_field_def toy_b64 toy_gcm toy_wrap toy_unwrap toy_parse_def
        text_bytes_round send_encrypted_def encryptResponse_def)
  note all = response_iv_is_flipped[OF h1 h2 h3 h4,
      of toy_stringify "DataResponse [(''status'', JStr ''active'')]" toy_key toy_parse "(''pub'', ''priv'')"]
  note reads = all[THEN conjunct2, THEN conjunct2, THEN conjunct2, THEN conjunct2, THEN conjunct1]
  note fails = all[THEN conjunct2, THEN conjunct2, THEN conjunct2, THEN conjunct2, THEN conjunct2]
  show ?thesis
    by (intro conjI run reads fails)
qed

text \<open>
  C2. For a key pair whose private half unwraps what the public half wraps, a cipher
  that decrypts what it encrypts, base64 that decodes what it encodes and a plaintext
  that parses back from its text: decrypting, with the private key and the original
  IV, the envelope made of \<open>encryptResponse p sessionKey (flip iv)\<close>, the wrapped
  session key and the IV gives back \<open>p\<close>, the session key and the IV.
\<close>

theorem envelope_round_trip:
  assumes "\<forall>k. rsa_oaep_unwrap K privateKey (rsa_oaep_wrap K publicKey k) = Inr k"
    and "\<forall>k iv pt. gcm_decrypt K k iv (gcm_encrypt K k iv pt) = Inr pt"
    and "\<forall>bs. b64decode K (b64encode K bs) = bs"
    and "parse (stringify p) = Inr p"
  shows "decryptRequest K parse
           \<lparr>encrypted_flow_data = JStr (encryptResponse K stringify p sessionKey (flip_iv iv)),
            encrypted_aes_key = JStr (b64encode K (rsa_oaep_wrap K publicKey sessionKey)),
            initial_vector = JStr (b64encode K iv)\<rparr>
           privateKey
         = Inr \<lparr>decryptedBody = p, aesKeyBuffer = sessionKey, initialVectorBuffer = iv\<rparr>"
  using assms
  by (simp add: decryptRequest_def encryptResponse_def base64_field_def flip_iv_involution)

text \<open>C2 under the stand-in cipher, the plaintext being its own text.\<close>

theorem envelope_round_trip_witness:
  "decryptRequest toy_cipher Inr
     \<lparr>encrypted_flow_data = JStr (encryptResponse toy_cipher (\<lambda>p. p) (text_bytes ''{}'') toy_key (flip_iv toy_iv)),
      encrypted_aes_key = JStr (b64encode toy_cipher (rsa_oaep_wrap toy_cipher ''pub'' toy_key)),
      initial_vector = JStr (b64encode toy_cipher toy_iv)\<rparr>
     ''priv''
   = Inr \<lparr>decryptedBody = text_bytes ''{}'', aesKeyBuffer = toy_key, initialVectorBuffer = toy_iv\<rparr>"
proof -
  have h1: "\<forall>k. rsa_oaep_unwrap toy_cipher ''priv'' (rsa_oaep_wrap toy_cipher ''pub'' k) = Inr k"
    by (simp add: toy_rsa)
  have h2: "\<forall>k iv pt. gcm_decrypt toy_cipher k iv (gcm_encrypt toy_cipher k iv pt) = Inr pt"
    by (simp add: toy_gcm)
  have h3: "\<forall>bs. b64decode toy_cipher (b64encode toy_cipher bs) = bs"
    by (simp add: toy_b64)
  have h4: "(Inr :: bytes \<Rightarrow> string + bytes) ((\<lambda>p. p) (text_bytes ''{}'')) = Inr (text_bytes ''{}'')"
    by simp
  show ?thesis
    using h1 h2 h3 h4
    by (rule envelope_round_trip[where K = toy_cipher and parse = Inr and stringify = "\<lambda>p. p"])
qed

subsection \<open>A key that does not match\<close>







end
